theory Spec2Isabelle
  imports Complex_Main
begin

section \<open>The graph weighting engine of \<^verbatim>\<open>app/routes/utils/graph_weighting_engine.py\<close>\<close>

text \<open>
  The engine scores one relationship (planet \<open>\<rightarrow>\<close> entity) in a context of rulers, planetary
  positions and graph data. It is embedded function by function.

  \<^item> Python dictionaries read with \<^verbatim>\<open>.get\<close> are records whose fields are options, or
    association lists where the keys are data. For a key read without a default, \<open>None\<close>
    is the absent key or the null value; for a key read with a default, \<open>None\<close> is the
    absent key, and a value has the type of the field (a null or ill-typed value is outside
    the model).
  \<^item> Python floats are embedded twice. The functions named as in the source compute in
    exact rationals (\<open>rat\<close>), the operations in the order of the source; they serve the
    claims about formulas, where the rounding of doubles moves a value by units in the
    last place only. The functions with the suffix \<open>_fp\<close> take the rounding of the
    arithmetic as a parameter and, at \<open>ieee_double\<close>, compute the doubles of the program;
    they serve the claims about the 3-decimal rounding and the rank thresholds.
  \<^item> The one exception the source can raise on these typed inputs is the attribute access
    on a missing \<^verbatim>\<open>target_entity\<close>; it is a value of type \<open>error\<close>.
\<close>

subsection \<open>Python helpers\<close>

type_synonym 'v dict = "(string \<times> 'v) list"

text \<open>\<^verbatim>\<open>d.get(k)\<close> where \<^verbatim>\<open>k\<close> may be \<^verbatim>\<open>None\<close> (never a key of a string-keyed dict).\<close>

definition dict_get :: "'v dict \<Rightarrow> string option \<Rightarrow> 'v option" where
  "dict_get d k = (case k of None \<Rightarrow> None | Some s \<Rightarrow> map_of d s)"

text \<open>\<^verbatim>\<open>d.get(k, default)\<close> on a record field.\<close>

definition get_default :: "'a option \<Rightarrow> 'a \<Rightarrow> 'a" where
  "get_default v dflt = (case v of None \<Rightarrow> dflt | Some x \<Rightarrow> x)"

text \<open>\<^verbatim>\<open>sub in s\<close> on strings.\<close>

fun str_contains :: "string \<Rightarrow> string \<Rightarrow> bool" where
  "str_contains [] sub = (sub = [])"
| "str_contains (c # cs) sub = (take (length sub) (c # cs) = sub \<or> str_contains cs sub)"

text \<open>\<^verbatim>\<open>max(values)\<close> of a non-empty sequence; the source guards the empty case itself.\<close>

fun max_values :: "rat list \<Rightarrow> rat" where
  "max_values [] = 0"
| "max_values (x # xs) = fold max xs x"

text \<open>
  \<^verbatim>\<open>round(x, ndigits)\<close>: to the nearest multiple of \<open>10^-ndigits\<close>, a tie going to the even
  neighbour.
\<close>

definition round_half_even :: "rat \<Rightarrow> int" where
  "round_half_even y =
     (let n = \<lfloor>y\<rfloor>;
          r = y - of_int n
      in if r < 1 / 2 then n
         else if 1 / 2 < r then n + 1
         else if even n then n else n + 1)"

definition py_round :: "rat \<Rightarrow> nat \<Rightarrow> rat" where
  "py_round x ndigits = of_int (round_half_even (x * 10 ^ ndigits)) / 10 ^ ndigits"

subsection \<open>Data model\<close>

datatype error = AttributeError

record planet_position =
  sign :: "string option"
  altitude :: "rat option"
  is_cazimi :: "bool option"
  is_combust :: "bool option"
  is_retrograde :: "bool option"
  is_out_of_bounds :: "bool option"

record entity =
  entity_name :: "string option"
  entity_type :: "string option"

record relationship =
  source_planet :: "string option"
  target_entity :: "entity option"
  target_type :: "string option"
  target_name :: "string option"
  relationship_type :: "string option"

record weighting_context =
  hour_ruler :: "string option"
  day_ruler :: "string option"
  current_weekday :: "string option"
  planetary_positions :: "planet_position dict option"
  graph_data :: "string list dict option"

record weight_factors_t =
  w_graph_proximity :: rat
  w_astrological_authority :: rat
  w_temporal_relevance :: rat
  w_elemental_dominance :: rat

record GraphWeightingEngine =
  weight_factors :: weight_factors_t

record breakdown_t =
  graph_proximity :: rat
  astrological_authority :: rat
  temporal_relevance :: rat
  elemental_dominance :: rat
  elemental_weather :: "rat dict"

record weight_result =
  final_weight :: rat
  breakdown :: breakdown_t
  rank :: string
  confidence :: rat

definition ESSENTIAL_DIGNITIES :: "string dict dict" where
  "ESSENTIAL_DIGNITIES =
    [(''Sun'', [(''rulership'', ''Leo''), (''exaltation'', ''Aries''),
                (''detriment'', ''Aquarius''), (''fall'', ''Libra'')]),
     (''Moon'', [(''rulership'', ''Cancer''), (''exaltation'', ''Taurus''),
                 (''detriment'', ''Capricorn''), (''fall'', ''Scorpio'')]),
     (''Mercury'', [(''rulership'', ''Gemini''), (''exaltation'', ''Virgo''),
                    (''detriment'', ''Sagittarius''), (''fall'', ''Pisces'')]),
     (''Venus'', [(''rulership'', ''Taurus''), (''exaltation'', ''Pisces''),
                  (''detriment'', ''Scorpio''), (''fall'', ''Virgo'')]),
     (''Mars'', [(''rulership'', ''Aries''), (''exaltation'', ''Capricorn''),
                 (''detriment'', ''Libra''), (''fall'', ''Cancer'')]),
     (''Jupiter'', [(''rulership'', ''Sagittarius''), (''exaltation'', ''Cancer''),
                    (''detriment'', ''Gemini''), (''fall'', ''Capricorn'')]),
     (''Saturn'', [(''rulership'', ''Capricorn''), (''exaltation'', ''Libra''),
                   (''detriment'', ''Cancer''), (''fall'', ''Aries'')])]"

text \<open>\<^verbatim>\<open>GraphWeightingEngine.__init__\<close>\<close>

definition GraphWeightingEngine_init :: GraphWeightingEngine where
  "GraphWeightingEngine_init =
     \<lparr>weight_factors = \<lparr>w_graph_proximity = 3 / 10, w_astrological_authority = 4 / 10,
                        w_temporal_relevance = 2 / 10, w_elemental_dominance = 1 / 10\<rparr>\<rparr>"

subsection \<open>1. Graph proximity\<close>

definition direct_connections :: "string list dict" where
  "direct_connections =
    [(''Mars'', [''Iron'', ''Sachiel'', ''Tuesday'', ''Red'']),
     (''Sun'', [''Gold'', ''Michael'', ''Sunday'', ''Yellow'']),
     (''Moon'', [''Silver'', ''Gabriel'', ''Monday'', ''Silver''])]"

text \<open>\<^verbatim>\<open>_find_shortest_path_length\<close>: the graph argument is not read.\<close>

definition find_shortest_path_length :: "string option \<Rightarrow> string \<Rightarrow> string list dict \<Rightarrow> int" where
  "find_shortest_path_length source target graph =
     (if source = Some target then 0
      else if target \<in> set (get_default (dict_get direct_connections source) []) then 1
      else 3)"

definition calculate_graph_proximity_weight ::
    "string option \<Rightarrow> string \<Rightarrow> string list dict \<Rightarrow> rat" where
  "calculate_graph_proximity_weight source_entity target_entity_name graph =
     (let path_length = find_shortest_path_length source_entity target_entity_name graph
      in if path_length = 1 then 1
         else if path_length = 2 then 7 / 10
         else if path_length = 3 then 4 / 10
         else if path_length = 4 then 2 / 10
         else 1 / 10)"

subsection \<open>2. Astrological authority\<close>

text \<open>\<^verbatim>\<open>_get_dignity_multiplier\<close>\<close>

definition get_dignity_multiplier :: "string option \<Rightarrow> string \<Rightarrow> rat" where
  "get_dignity_multiplier planet sgn_name =
     (let dignity = get_default (dict_get ESSENTIAL_DIGNITIES planet) []
      in if Some sgn_name = map_of dignity ''rulership'' then 3 / 2
         else if Some sgn_name = map_of dignity ''exaltation'' then 5 / 4
         else if Some sgn_name = map_of dignity ''detriment'' then 3 / 4
         else if Some sgn_name = map_of dignity ''fall'' then 1 / 2
         else 1)"

definition calculate_astrological_authority ::
    "string option \<Rightarrow> planet_position dict \<Rightarrow> rat" where
  "calculate_astrological_authority planet positions =
     (case dict_get positions planet of
        None \<Rightarrow> 1 / 2
      | Some position \<Rightarrow>
          (let authority = 1;
               sgn_name = get_default (sign position) [];
               dignity_mult = get_dignity_multiplier planet sgn_name;
               authority = authority * dignity_mult;
               alt = get_default (altitude position) 0;
               visibility_mult = (if 0 \<le> alt then 1 + (alt / 90) * (1 / 2) else 6 / 10);
               authority = authority * visibility_mult;
               authority = (if get_default (is_cazimi position) False then authority * (13 / 10)
                            else if get_default (is_combust position) False
                                 then authority * (3 / 10)
                            else authority);
               authority = (if get_default (is_retrograde position) False
                            then authority * (7 / 10) else authority);
               authority = (if planet = Some ''Moon''
                               \<and> get_default (is_out_of_bounds position) False
                            then authority * (4 / 10) else authority)
           in max (min authority 3) (1 / 10)))"

subsection \<open>3. Temporal relevance\<close>

definition calculate_temporal_relevance ::
    "relationship \<Rightarrow> string option \<Rightarrow> string option \<Rightarrow> string option \<Rightarrow> rat" where
  "calculate_temporal_relevance rel hour_rlr day_rlr weekday =
     (let src = source_planet rel;
          ttype = target_type rel;
          tname = target_name rel;
          rel_type = relationship_type rel;
          base_relevance =
            (if src = hour_rlr then
               (if ttype = Some ''Weekday'' \<and> tname \<noteq> weekday then (18 / 10) * (3 / 10)
                else 18 / 10)
             else if src = day_rlr then
               (if ttype = Some ''Weekday'' \<and> tname = weekday then (12 / 10) * (13 / 10)
                else 12 / 10)
             else 6 / 10);
          base_relevance =
            (if rel_type = Some ''HOUR_RULED_BY'' then base_relevance * (15 / 10)
             else if rel_type = Some ''DAY_RULED_BY'' then base_relevance * 1
             else if rel_type = Some ''HAS_ANALOGY_WITH'' then base_relevance * (8 / 10)
             else base_relevance)
      in max (min base_relevance 2) (1 / 10))"

subsection \<open>4. Elemental dominance\<close>

text \<open>\<^verbatim>\<open>_get_entity_elements\<close>\<close>

definition get_entity_elements :: "entity \<Rightarrow> string list" where
  "get_entity_elements ent =
     (let etype = get_default (entity_type ent) [];
          ename = get_default (entity_name ent) []
      in if str_contains ename ''Iron'' then [''Fire'', ''Dry'']
         else if str_contains ename ''Silver'' then [''Water'', ''Moist'']
         else if str_contains ename ''Gold'' then [''Fire'', ''Hot'']
         else [])"

definition calculate_elemental_dominance :: "entity \<Rightarrow> rat dict \<Rightarrow> rat" where
  "calculate_elemental_dominance ent weather =
     (let entity_elements = get_entity_elements ent
      in if entity_elements = [] then 1
         else
           (let alignment_score =
                  fold (\<lambda>(element, strength) score.
                          if element \<in> set entity_elements then score + strength * (3 / 10)
                          else score)
                       weather 1
            in max (min alignment_score (3 / 2)) (1 / 2)))"

definition ruler_elements :: "rat dict dict" where
  "ruler_elements =
    [(''Sun'', [(''Fire'', 8 / 10), (''Hot'', 9 / 10), (''Dry'', 6 / 10)]),
     (''Moon'', [(''Water'', 8 / 10), (''Cold'', 6 / 10), (''Moist'', 9 / 10)]),
     (''Mars'', [(''Fire'', 9 / 10), (''Hot'', 8 / 10), (''Dry'', 7 / 10)]),
     (''Venus'', [(''Earth'', 7 / 10), (''Moist'', 8 / 10)]),
     (''Mercury'', [(''Air'', 8 / 10), (''Cold'', 6 / 10), (''Dry'', 6 / 10)]),
     (''Jupiter'', [(''Air'', 7 / 10), (''Hot'', 7 / 10), (''Moist'', 6 / 10)]),
     (''Saturn'', [(''Earth'', 9 / 10), (''Cold'', 9 / 10), (''Dry'', 8 / 10)])]"

definition axes :: "string list" where
  "axes = [''Fire'', ''Earth'', ''Air'', ''Water'', ''Hot'', ''Cold'', ''Dry'', ''Moist'']"

text \<open>
  \<^verbatim>\<open>elemental_weather[element] += x\<close>. Every element of \<open>ruler_elements\<close> is one of the eight
  keys of the weather dictionary (lemma \<open>ruler_elements_tables\<close> below), so the update
  never meets a missing key.
\<close>

definition weather_add :: "rat dict \<Rightarrow> string \<Rightarrow> rat \<Rightarrow> rat dict" where
  "weather_add w element x = map (\<lambda>(k, v). if k = element then (k, v + x) else (k, v)) w"

text \<open>The loop \<^verbatim>\<open>for element, strength in table.items(): weather[element] += strength * c\<close>.\<close>

definition add_ruler :: "rat dict \<Rightarrow> rat dict \<Rightarrow> rat \<Rightarrow> rat dict" where
  "add_ruler w table c = fold (\<lambda>(element, strength) w'. weather_add w' element (strength * c)) table w"

definition calculate_current_elemental_weather ::
    "planet_position dict \<Rightarrow> string option \<Rightarrow> string option \<Rightarrow> rat dict" where
  "calculate_current_elemental_weather positions hour_rlr day_rlr =
     (let weather = map (\<lambda>k. (k, 0)) axes;
          weather = (case dict_get ruler_elements hour_rlr of
                       Some table \<Rightarrow> add_ruler weather table 1
                     | None \<Rightarrow> weather);
          weather = (case dict_get ruler_elements day_rlr of
                       Some table \<Rightarrow>
                         if day_rlr \<noteq> hour_rlr then add_ruler weather table (6 / 10)
                         else weather
                     | None \<Rightarrow> weather);
          max_val = (if map snd weather \<noteq> [] then max_values (map snd weather) else 1)
      in if 0 < max_val then map (\<lambda>(k, v). (k, v / max_val)) weather else weather)"

subsection \<open>5. Master weighting function\<close>

text \<open>\<^verbatim>\<open>_calculate_rank\<close>\<close>

definition calculate_rank :: "rat \<Rightarrow> string" where
  "calculate_rank weight =
     (if 2 \<le> weight then ''dominant''
      else if 3 / 2 \<le> weight then ''strong''
      else if 1 \<le> weight then ''moderate''
      else if 1 / 2 \<le> weight then ''weak''
      else ''minimal'')"

text \<open>
  The two local variables of \<^verbatim>\<open>_calculate_confidence\<close>. \<^verbatim>\<open>not context.get(k)\<close> holds for an
  absent key, for an empty dictionary and for an empty string.
\<close>

definition data_completeness :: "weighting_context \<Rightarrow> rat" where
  "data_completeness ctx =
     (let dc = 1;
          dc = (if get_default (planetary_positions ctx) [] = [] then dc * (5 / 10) else dc);
          dc = (if get_default (hour_ruler ctx) [] = [] then dc * (8 / 10) else dc);
          dc = (if get_default (graph_data ctx) [] = [] then dc * (7 / 10) else dc)
      in dc)"

definition weight_stability :: "rat \<Rightarrow> rat" where
  "weight_stability weight = min (weight / 2) 1"

text \<open>\<^verbatim>\<open>_calculate_confidence\<close>\<close>

definition calculate_confidence :: "rat \<Rightarrow> weighting_context \<Rightarrow> rat" where
  "calculate_confidence weight ctx = py_round (data_completeness ctx * weight_stability weight) 3"

definition calculate_final_weight ::
    "GraphWeightingEngine \<Rightarrow> relationship \<Rightarrow> weighting_context \<Rightarrow> error + weight_result" where
  "calculate_final_weight self rel ctx =
     (let src = source_planet rel
      in case target_entity rel of
           None \<Rightarrow> Inl AttributeError
         | Some tgt \<Rightarrow>
             (let graph_weight = calculate_graph_proximity_weight
                    src (get_default (entity_name tgt) []) (get_default (graph_data ctx) []);
                  astro_weight = calculate_astrological_authority
                    src (get_default (planetary_positions ctx) []);
                  temporal_weight = calculate_temporal_relevance
                    rel (hour_ruler ctx) (day_ruler ctx) (current_weekday ctx);
                  weather = calculate_current_elemental_weather
                    (get_default (planetary_positions ctx) []) (hour_ruler ctx) (day_ruler ctx);
                  elemental_weight = calculate_elemental_dominance tgt weather;
                  fw = graph_weight * w_graph_proximity (weight_factors self)
                     + astro_weight * w_astrological_authority (weight_factors self)
                     + temporal_weight * w_temporal_relevance (weight_factors self)
                     + elemental_weight * w_elemental_dominance (weight_factors self)
              in Inr \<lparr>final_weight = py_round fw 3,
                      breakdown = \<lparr>graph_proximity = py_round graph_weight 3,
                                   astrological_authority = py_round astro_weight 3,
                                   temporal_relevance = py_round temporal_weight 3,
                                   elemental_dominance = py_round elemental_weight 3,
                                   elemental_weather = weather\<rparr>,
                      rank = calculate_rank fw,
                      confidence = calculate_confidence fw ctx\<rparr>))"

subsection \<open>The scenarios of \<^verbatim>\<open>test_complex_scenarios\<close>\<close>

definition context_saturday_mars :: weighting_context where
  "context_saturday_mars =
     \<lparr>hour_ruler = Some ''Mars'', day_ruler = Some ''Saturn'',
      current_weekday = Some ''Saturday'',
      planetary_positions = Some
        [(''Mars'', \<lparr>sign = Some ''Aries'', altitude = Some 45, is_cazimi = None,
                     is_combust = Some False, is_retrograde = None, is_out_of_bounds = None\<rparr>),
         (''Saturn'', \<lparr>sign = Some ''Capricorn'', altitude = Some 60, is_cazimi = None,
                       is_combust = Some False, is_retrograde = None,
                       is_out_of_bounds = None\<rparr>)],
      graph_data = None\<rparr>"

definition mars_sachiel :: relationship where
  "mars_sachiel =
     \<lparr>source_planet = Some ''Mars'',
      target_entity = Some \<lparr>entity_name = Some ''Sachiel'', entity_type = Some ''Angel''\<rparr>,
      target_type = None, target_name = None,
      relationship_type = Some ''HOUR_RULED_BY''\<rparr>"

definition mars_tuesday :: relationship where
  "mars_tuesday =
     \<lparr>source_planet = Some ''Mars'',
      target_entity = Some \<lparr>entity_name = Some ''Tuesday'', entity_type = Some ''Weekday''\<rparr>,
      target_type = None, target_name = None,
      relationship_type = Some ''DAY_RULED_BY''\<rparr>"

subsection \<open>Formulas of the specification\<close>

text \<open>
  The definitions of this subsection follow the wording of the specification, not the
  source; the theorems below compare them with the functions of the engine.
\<close>

definition clamp :: "rat \<Rightarrow> rat \<Rightarrow> rat \<Rightarrow> rat" where
  "clamp x lo hi = (if x < lo then lo else if hi < x then hi else x)"

text \<open>Temporal relevance: the base by the role of the source planet, and the type multiplier.\<close>

definition temporal_base ::
    "relationship \<Rightarrow> string option \<Rightarrow> string option \<Rightarrow> string option \<Rightarrow> rat" where
  "temporal_base rel h d w =
     (if source_planet rel = h then
        18 / 10 * (if target_type rel = Some ''Weekday'' \<and> target_name rel \<noteq> w
                   then 3 / 10 else 1)
      else if source_planet rel = d then
        12 / 10 * (if target_type rel = Some ''Weekday'' \<and> target_name rel = w
                   then 13 / 10 else 1)
      else 6 / 10)"

definition relationship_type_multiplier :: "string option \<Rightarrow> rat" where
  "relationship_type_multiplier t =
     (if t = Some ''HOUR_RULED_BY'' then 15 / 10
      else if t = Some ''DAY_RULED_BY'' then 1
      else if t = Some ''HAS_ANALOGY_WITH'' then 8 / 10
      else 1)"

text \<open>
  Astrological authority: the dignity of a planet in a sign, read from the catalog, and
  the five multipliers of the specification.
\<close>

datatype dignity = Domicile | Exaltation | Detriment | Fall | Neutral

definition dignity_of :: "string option \<Rightarrow> string \<Rightarrow> dignity" where
  "dignity_of planet s =
     (case dict_get ESSENTIAL_DIGNITIES planet of
        None \<Rightarrow> Neutral
      | Some catalog \<Rightarrow>
          if map_of catalog ''rulership'' = Some s then Domicile
          else if map_of catalog ''exaltation'' = Some s then Exaltation
          else if map_of catalog ''detriment'' = Some s then Detriment
          else if map_of catalog ''fall'' = Some s then Fall
          else Neutral)"

fun dignity_multiplier :: "dignity \<Rightarrow> rat" where
  "dignity_multiplier Domicile = 3 / 2"
| "dignity_multiplier Exaltation = 5 / 4"
| "dignity_multiplier Detriment = 3 / 4"
| "dignity_multiplier Fall = 1 / 2"
| "dignity_multiplier Neutral = 1"

definition visibility :: "rat \<Rightarrow> rat" where
  "visibility alt = (if 0 \<le> alt then 1 + (alt / 90) * (1 / 2) else 6 / 10)"

definition combustion :: "bool \<Rightarrow> bool \<Rightarrow> rat" where
  "combustion cazimi combust = (if cazimi then 13 / 10 else if combust then 3 / 10 else 1)"

definition retrogradation :: "bool \<Rightarrow> rat" where
  "retrogradation retrograde = (if retrograde then 7 / 10 else 1)"

definition out_of_bounds :: "string option \<Rightarrow> bool \<Rightarrow> rat" where
  "out_of_bounds planet oob = (if planet = Some ''Moon'' \<and> oob then 4 / 10 else 1)"

definition raw_authority :: "string option \<Rightarrow> planet_position \<Rightarrow> rat" where
  "raw_authority planet pos =
     dignity_multiplier (dignity_of planet (get_default (sign pos) []))
     * visibility (get_default (altitude pos) 0)
     * combustion (get_default (is_cazimi pos) False) (get_default (is_combust pos) False)
     * retrogradation (get_default (is_retrograde pos) False)
     * out_of_bounds planet (get_default (is_out_of_bounds pos) False)"

text \<open>Scenario B: a planet in fall, below the horizon, combust and retrograde.\<close>

definition saturn_fallen :: planet_position where
  "saturn_fallen = \<lparr>sign = Some ''Aries'', altitude = Some (- 12), is_cazimi = Some False,
                    is_combust = Some True, is_retrograde = Some True,
                    is_out_of_bounds = None\<rparr>"

text \<open>
  Elemental weather: the per-axis table of a ruler (0 where the table has no entry or the
  planet has no table), the axis totals and their maximum.
\<close>

definition recognized :: "string option \<Rightarrow> bool" where
  "recognized p = (dict_get ruler_elements p \<noteq> None)"

definition table_strength :: "string option \<Rightarrow> string \<Rightarrow> rat" where
  "table_strength p ax =
     (case dict_get ruler_elements p of
        None \<Rightarrow> 0
      | Some table \<Rightarrow> (case map_of table ax of None \<Rightarrow> 0 | Some s \<Rightarrow> s))"

definition axis_total :: "string option \<Rightarrow> string option \<Rightarrow> string \<Rightarrow> rat" where
  "axis_total h d ax =
     table_strength h ax * 1
     + (if recognized d \<and> d \<noteq> h then table_strength d ax * (6 / 10) else 0)"

definition max_total :: "string option \<Rightarrow> string option \<Rightarrow> rat" where
  "max_total h d = Max (axis_total h d ` set axes)"

text \<open>The sum of the strengths that a table lists for one axis (used in the proofs).\<close>

fun contrib :: "rat dict \<Rightarrow> string \<Rightarrow> rat" where
  "contrib [] k = 0"
| "contrib ((e, s) # t) k = (if e = k then s else 0) + contrib t k"

text \<open>
  Inputs used as witnesses and counterexamples: a Sun relationship whose weighted sum is
  0.9996, the fallen and combust Saturn of a Friday night, and a relationship without a
  source planet.
\<close>

definition sun_topaz :: relationship where
  "sun_topaz =
     \<lparr>source_planet = Some ''Sun'',
      target_entity = Some \<lparr>entity_name = Some ''Topaz'', entity_type = Some ''Stone''\<rparr>,
      target_type = None, target_name = None,
      relationship_type = Some ''HAS_ANALOGY_WITH''\<rparr>"

definition context_sun_rising :: weighting_context where
  "context_sun_rising =
     \<lparr>hour_ruler = Some ''Mars'', day_ruler = Some ''Saturn'',
      current_weekday = Some ''Saturday'',
      planetary_positions = Some
        [(''Sun'', \<lparr>sign = Some ''Leo'', altitude = Some (2508 / 100), is_cazimi = None,
                    is_combust = None, is_retrograde = None, is_out_of_bounds = None\<rparr>)],
      graph_data = Some [(''Sun'', [''Gold''])]\<rparr>"

definition saturn_lead :: relationship where
  "saturn_lead =
     \<lparr>source_planet = Some ''Saturn'',
      target_entity = Some \<lparr>entity_name = Some ''Lead'', entity_type = Some ''Metal''\<rparr>,
      target_type = None, target_name = None,
      relationship_type = Some ''HAS_ANALOGY_WITH''\<rparr>"

definition context_friday_saturn :: weighting_context where
  "context_friday_saturn =
     \<lparr>hour_ruler = Some ''Saturn'', day_ruler = Some ''Venus'',
      current_weekday = Some ''Friday'',
      planetary_positions = Some
        [(''Saturn'', \<lparr>sign = Some ''Aries'', altitude = Some (- 12), is_cazimi = Some False,
                       is_combust = Some True, is_retrograde = Some False,
                       is_out_of_bounds = Some False\<rparr>)],
      graph_data = Some [(''Saturn'', [''Lead''])]\<rparr>"

definition unsourced_iron :: relationship where
  "unsourced_iron =
     \<lparr>source_planet = None,
      target_entity = Some \<lparr>entity_name = Some ''Iron'', entity_type = Some ''Metal''\<rparr>,
      target_type = None, target_name = None,
      relationship_type = Some ''HAS_ANALOGY_WITH''\<rparr>"

text \<open>
  The composer: the sum of the four sub-scores, each times its configured coefficient,
  before it is rounded; and the cut points of the rank.
\<close>

definition weighted_sum ::
    "GraphWeightingEngine \<Rightarrow> relationship \<Rightarrow> entity \<Rightarrow> weighting_context \<Rightarrow> rat" where
  "weighted_sum self rel tgt ctx =
     calculate_graph_proximity_weight (source_planet rel)
         (get_default (entity_name tgt) []) (get_default (graph_data ctx) [])
       * w_graph_proximity (weight_factors self)
     + calculate_astrological_authority (source_planet rel)
         (get_default (planetary_positions ctx) [])
       * w_astrological_authority (weight_factors self)
     + calculate_temporal_relevance rel (hour_ruler ctx) (day_ruler ctx) (current_weekday ctx)
       * w_temporal_relevance (weight_factors self)
     + calculate_elemental_dominance tgt
         (calculate_current_elemental_weather (get_default (planetary_positions ctx) [])
            (hour_ruler ctx) (day_ruler ctx))
       * w_elemental_dominance (weight_factors self)"

definition rank_thresholds :: "rat list" where
  "rank_thresholds = [1 / 2, 1, 3 / 2, 2]"

subsection \<open>The engine in the arithmetic of the program\<close>

text \<open>
  The functions above compute in exact rationals. The program computes in IEEE doubles:
  every float literal, product, sum and quotient is rounded to the nearest double. The
  functions of this subsection are the same functions, line by line, with a rounding
  \<open>fl\<close> applied wherever the source produces a float: to each literal and after each
  arithmetic operation. With \<open>fl = ieee_double\<close> they compute what the program computes;
  with \<open>fl = exact\<close> they are the functions above (lemmas \<open>exact_scorers\<close>,
  \<open>exact_weather\<close>, \<open>exact_master\<close>). An altitude is the number the caller passed, an
  integer or a double, taken as it is; comparisons, \<^verbatim>\<open>min\<close> and \<^verbatim>\<open>max\<close> are exact.
\<close>

type_synonym rounding = "rat \<Rightarrow> rat"

definition exact :: rounding where
  "exact x = x"

text \<open>
  Rounding to the nearest binary64 value, ties to the even mantissa: 53 bits of mantissa
  in the binade of the argument, the exponent not below -1022 (so that small values round
  on the subnormal grid). Overflow to infinity is not modelled; the engine's values stay
  far below the largest double.
\<close>

function bit_length :: "int \<Rightarrow> int" where
  "bit_length n = (if n \<le> 0 then 0 else 1 + bit_length (n div 2))"
  by pat_completeness auto
termination
  by (relation "measure nat") auto

definition pow2 :: "int \<Rightarrow> rat" where
  "pow2 k = (if 0 \<le> k then 2 ^ nat k else 1 / 2 ^ nat (- k))"

definition binade :: "rat \<Rightarrow> int" where
  "binade a =
     (let (p, q) = quotient_of a;
          k = bit_length p - bit_length q
      in if pow2 k \<le> a then k else k - 1)"

definition ieee_double :: rounding where
  "ieee_double x =
     (if x = 0 then 0
      else (let a = \<bar>x\<bar>;
                e = max (binade a) (- 1022);
                q = pow2 (e - 52)
            in sgn x * (of_int (round_half_even (a / q)) * q)))"


text \<open>\<^verbatim>\<open>round(x, ndigits)\<close> returns the double nearest to the decimal.\<close>

definition py_round_fp :: "rounding \<Rightarrow> rat \<Rightarrow> nat \<Rightarrow> rat" where
  "py_round_fp fl x ndigits = fl (py_round x ndigits)"

definition GraphWeightingEngine_init_fp :: "rounding \<Rightarrow> GraphWeightingEngine" where
  "GraphWeightingEngine_init_fp fl =
     \<lparr>weight_factors = \<lparr>w_graph_proximity = fl (3 / 10),
                        w_astrological_authority = fl (4 / 10),
                        w_temporal_relevance = fl (2 / 10),
                        w_elemental_dominance = fl (1 / 10)\<rparr>\<rparr>"

definition calculate_graph_proximity_weight_fp ::
    "rounding \<Rightarrow> string option \<Rightarrow> string \<Rightarrow> string list dict \<Rightarrow> rat" where
  "calculate_graph_proximity_weight_fp fl source_entity target_entity_name graph =
     (let path_length = find_shortest_path_length source_entity target_entity_name graph
      in if path_length = 1 then fl 1
         else if path_length = 2 then fl (7 / 10)
         else if path_length = 3 then fl (4 / 10)
         else if path_length = 4 then fl (2 / 10)
         else fl (1 / 10))"

definition get_dignity_multiplier_fp :: "rounding \<Rightarrow> string option \<Rightarrow> string \<Rightarrow> rat" where
  "get_dignity_multiplier_fp fl planet sgn_name =
     (let dignity = get_default (dict_get ESSENTIAL_DIGNITIES planet) []
      in if Some sgn_name = map_of dignity ''rulership'' then fl (3 / 2)
         else if Some sgn_name = map_of dignity ''exaltation'' then fl (5 / 4)
         else if Some sgn_name = map_of dignity ''detriment'' then fl (3 / 4)
         else if Some sgn_name = map_of dignity ''fall'' then fl (1 / 2)
         else fl 1)"

definition calculate_astrological_authority_fp ::
    "rounding \<Rightarrow> string option \<Rightarrow> planet_position dict \<Rightarrow> rat" where
  "calculate_astrological_authority_fp fl planet positions =
     (case dict_get positions planet of
        None \<Rightarrow> fl (1 / 2)
      | Some position \<Rightarrow>
          (let authority = fl 1;
               sgn_name = get_default (sign position) [];
               dignity_mult = get_dignity_multiplier_fp fl planet sgn_name;
               authority = fl (authority * dignity_mult);
               alt = get_default (altitude position) 0;
               visibility_mult =
                 (if 0 \<le> alt then fl (fl 1 + fl (fl (alt / 90) * fl (1 / 2)))
                  else fl (6 / 10));
               authority = fl (authority * visibility_mult);
               authority = (if get_default (is_cazimi position) False
                            then fl (authority * fl (13 / 10))
                            else if get_default (is_combust position) False
                                 then fl (authority * fl (3 / 10))
                            else authority);
               authority = (if get_default (is_retrograde position) False
                            then fl (authority * fl (7 / 10)) else authority);
               authority = (if planet = Some ''Moon''
                               \<and> get_default (is_out_of_bounds position) False
                            then fl (authority * fl (4 / 10)) else authority)
           in max (min authority (fl 3)) (fl (1 / 10))))"

definition calculate_temporal_relevance_fp ::
    "rounding \<Rightarrow> relationship \<Rightarrow> string option \<Rightarrow> string option \<Rightarrow> string option \<Rightarrow> rat"
  where
  "calculate_temporal_relevance_fp fl rel hour_rlr day_rlr weekday =
     (let src = source_planet rel;
          ttype = target_type rel;
          tname = target_name rel;
          rel_type = relationship_type rel;
          base_relevance =
            (if src = hour_rlr then
               (if ttype = Some ''Weekday'' \<and> tname \<noteq> weekday
                then fl (fl (18 / 10) * fl (3 / 10))
                else fl (18 / 10))
             else if src = day_rlr then
               (if ttype = Some ''Weekday'' \<and> tname = weekday
                then fl (fl (12 / 10) * fl (13 / 10))
                else fl (12 / 10))
             else fl (6 / 10));
          base_relevance =
            (if rel_type = Some ''HOUR_RULED_BY'' then fl (base_relevance * fl (15 / 10))
             else if rel_type = Some ''DAY_RULED_BY'' then fl (base_relevance * fl 1)
             else if rel_type = Some ''HAS_ANALOGY_WITH'' then fl (base_relevance * fl (8 / 10))
             else base_relevance)
      in max (min base_relevance (fl 2)) (fl (1 / 10)))"

definition calculate_elemental_dominance_fp :: "rounding \<Rightarrow> entity \<Rightarrow> rat dict \<Rightarrow> rat" where
  "calculate_elemental_dominance_fp fl ent weather =
     (let entity_elements = get_entity_elements ent
      in if entity_elements = [] then fl 1
         else
           (let alignment_score =
                  fold (\<lambda>(element, strength) score.
                          if element \<in> set entity_elements
                          then fl (score + fl (strength * fl (3 / 10)))
                          else score)
                       weather (fl 1)
            in max (min alignment_score (fl (3 / 2))) (fl (1 / 2))))"

definition ruler_elements_fp :: "rounding \<Rightarrow> rat dict dict" where
  "ruler_elements_fp fl =
     map (\<lambda>(planet, table). (planet, map (\<lambda>(element, strength). (element, fl strength)) table))
       ruler_elements"

definition weather_add_fp :: "rounding \<Rightarrow> rat dict \<Rightarrow> string \<Rightarrow> rat \<Rightarrow> rat dict" where
  "weather_add_fp fl w element x =
     map (\<lambda>(k, v). if k = element then (k, fl (v + x)) else (k, v)) w"

definition add_ruler_fp :: "rounding \<Rightarrow> rat dict \<Rightarrow> rat dict \<Rightarrow> rat \<Rightarrow> rat dict" where
  "add_ruler_fp fl w table c =
     fold (\<lambda>(element, strength) w'. weather_add_fp fl w' element (fl (strength * c))) table w"

definition calculate_current_elemental_weather_fp ::
    "rounding \<Rightarrow> planet_position dict \<Rightarrow> string option \<Rightarrow> string option \<Rightarrow> rat dict" where
  "calculate_current_elemental_weather_fp fl positions hour_rlr day_rlr =
     (let weather = map (\<lambda>k. (k, fl 0)) axes;
          weather = (case dict_get (ruler_elements_fp fl) hour_rlr of
                       Some table \<Rightarrow> add_ruler_fp fl weather table (fl 1)
                     | None \<Rightarrow> weather);
          weather = (case dict_get (ruler_elements_fp fl) day_rlr of
                       Some table \<Rightarrow>
                         if day_rlr \<noteq> hour_rlr then add_ruler_fp fl weather table (fl (6 / 10))
                         else weather
                     | None \<Rightarrow> weather);
          max_val = (if map snd weather \<noteq> [] then max_values (map snd weather) else fl 1)
      in if 0 < max_val then map (\<lambda>(k, v). (k, fl (v / max_val))) weather else weather)"

definition calculate_rank_fp :: "rounding \<Rightarrow> rat \<Rightarrow> string" where
  "calculate_rank_fp fl weight =
     (if fl 2 \<le> weight then ''dominant''
      else if fl (3 / 2) \<le> weight then ''strong''
      else if fl 1 \<le> weight then ''moderate''
      else if fl (1 / 2) \<le> weight then ''weak''
      else ''minimal'')"

definition data_completeness_fp :: "rounding \<Rightarrow> weighting_context \<Rightarrow> rat" where
  "data_completeness_fp fl ctx =
     (let dc = fl 1;
          dc = (if get_default (planetary_positions ctx) [] = [] then fl (dc * fl (5 / 10))
                else dc);
          dc = (if get_default (hour_ruler ctx) [] = [] then fl (dc * fl (8 / 10)) else dc);
          dc = (if get_default (graph_data ctx) [] = [] then fl (dc * fl (7 / 10)) else dc)
      in dc)"

definition weight_stability_fp :: "rounding \<Rightarrow> rat \<Rightarrow> rat" where
  "weight_stability_fp fl weight = min (fl (weight / fl 2)) (fl 1)"

definition calculate_confidence_fp :: "rounding \<Rightarrow> rat \<Rightarrow> weighting_context \<Rightarrow> rat" where
  "calculate_confidence_fp fl weight ctx =
     py_round_fp fl (fl (data_completeness_fp fl ctx * weight_stability_fp fl weight)) 3"

definition calculate_final_weight_fp ::
    "rounding \<Rightarrow> GraphWeightingEngine \<Rightarrow> relationship \<Rightarrow> weighting_context
       \<Rightarrow> error + weight_result" where
  "calculate_final_weight_fp fl self rel ctx =
     (let src = source_planet rel
      in case target_entity rel of
           None \<Rightarrow> Inl AttributeError
         | Some tgt \<Rightarrow>
             (let graph_weight = calculate_graph_proximity_weight_fp fl
                    src (get_default (entity_name tgt) []) (get_default (graph_data ctx) []);
                  astro_weight = calculate_astrological_authority_fp fl
                    src (get_default (planetary_positions ctx) []);
                  temporal_weight = calculate_temporal_relevance_fp fl
                    rel (hour_ruler ctx) (day_ruler ctx) (current_weekday ctx);
                  weather = calculate_current_elemental_weather_fp fl
                    (get_default (planetary_positions ctx) []) (hour_ruler ctx) (day_ruler ctx);
                  elemental_weight = calculate_elemental_dominance_fp fl tgt weather;
                  fw = fl (fl (fl (fl (graph_weight * w_graph_proximity (weight_factors self))
                                   + fl (astro_weight
                                         * w_astrological_authority (weight_factors self)))
                               + fl (temporal_weight
                                     * w_temporal_relevance (weight_factors self)))
                           + fl (elemental_weight * w_elemental_dominance (weight_factors self)))
              in Inr \<lparr>final_weight = py_round_fp fl fw 3,
                      breakdown = \<lparr>graph_proximity = py_round_fp fl graph_weight 3,
                                   astrological_authority = py_round_fp fl astro_weight 3,
                                   temporal_relevance = py_round_fp fl temporal_weight 3,
                                   elemental_dominance = py_round_fp fl elemental_weight 3,
                                   elemental_weather = weather\<rparr>,
                      rank = calculate_rank_fp fl fw,
                      confidence = calculate_confidence_fp fl fw ctx\<rparr>))"

text \<open>
  Contexts for the evaluations in doubles: Mars exalted and combust at altitude 45 (a sum
  just below the decimal tie 0.9875), Mars in Leo at altitude 9 in a Saturn hour (a sum
  one unit in the last place below 1), and the Sun context above with the altitude
  literal 25.08 as a double.
\<close>

definition mars_combust_capricorn :: weighting_context where
  "mars_combust_capricorn =
     \<lparr>hour_ruler = Some ''Mars'', day_ruler = Some ''Saturn'',
      current_weekday = Some ''Saturday'',
      planetary_positions = Some
        [(''Mars'', \<lparr>sign = Some ''Capricorn'', altitude = Some 45, is_cazimi = None,
                     is_combust = Some True, is_retrograde = None, is_out_of_bounds = None\<rparr>)],
      graph_data = None\<rparr>"

definition mars_leo_saturn_hour :: weighting_context where
  "mars_leo_saturn_hour =
     \<lparr>hour_ruler = Some ''Saturn'', day_ruler = Some ''Venus'',
      current_weekday = Some ''Friday'',
      planetary_positions = Some
        [(''Mars'', \<lparr>sign = Some ''Leo'', altitude = Some 9, is_cazimi = None,
                     is_combust = None, is_retrograde = None, is_out_of_bounds = None\<rparr>)],
      graph_data = None\<rparr>"

definition context_sun_rising_fp :: "rounding \<Rightarrow> weighting_context" where
  "context_sun_rising_fp fl =
     context_sun_rising\<lparr>planetary_positions := Some
        [(''Sun'', \<lparr>sign = Some ''Leo'', altitude = Some (fl (2508 / 100)), is_cazimi = None,
                    is_combust = None, is_retrograde = None, is_out_of_bounds = None\<rparr>)]\<rparr>"


text \<open>The composer's sum as the program computes it, before it is rounded to 3 decimals.\<close>

definition weighted_sum_fp ::
    "rounding \<Rightarrow> GraphWeightingEngine \<Rightarrow> relationship \<Rightarrow> entity \<Rightarrow> weighting_context \<Rightarrow> rat"
  where
  "weighted_sum_fp fl self rel tgt ctx =
     fl (fl (fl (fl (calculate_graph_proximity_weight_fp fl (source_planet rel)
                       (get_default (entity_name tgt) []) (get_default (graph_data ctx) [])
                     * w_graph_proximity (weight_factors self))
                 + fl (calculate_astrological_authority_fp fl (source_planet rel)
                         (get_default (planetary_positions ctx) [])
                       * w_astrological_authority (weight_factors self)))
             + fl (calculate_temporal_relevance_fp fl rel (hour_ruler ctx) (day_ruler ctx)
                     (current_weekday ctx)
                   * w_temporal_relevance (weight_factors self)))
         + fl (calculate_elemental_dominance_fp fl tgt
                 (calculate_current_elemental_weather_fp fl
                    (get_default (planetary_positions ctx) []) (hour_ruler ctx) (day_ruler ctx))
               * w_elemental_dominance (weight_factors self)))"

section \<open>Properties\<close>

subsection \<open>Helper lemmas\<close>

lemma clamp_max_min: "lo \<le> hi \<Longrightarrow> max (min x hi) lo = clamp x lo hi"
  by (simp add: clamp_def max_def min_def)

lemma direct_connections_cases:
  "dict_get direct_connections src = None
   \<or> src = Some ''Mars'' \<or> src = Some ''Sun'' \<or> src = Some ''Moon''"
  by (cases src) (simp_all add: dict_get_def direct_connections_def)

subsection \<open>Graph proximity\<close>

text \<open>
  Claim C3, evaluated at its failing input. The claim asks for the bucket of the shortest
  path in the graph. \<open>find_shortest_path_length\<close> never reads the graph: for Venus and
  Copper it answers 3 hops, weight 0.4, both in a graph where the two are joined by an
  edge (the claim: 1.0) and in the empty graph where Copper is unreachable (the claim: 0.1).
\<close>

theorem proximity_placeholder_ignores_graph:
  "calculate_graph_proximity_weight (Some ''Venus'') ''Copper''
     [(''Venus'', [''Copper'']), (''Copper'', [''Venus''])] = 4 / 10
   \<and> calculate_graph_proximity_weight (Some ''Venus'') ''Copper'' [] = 4 / 10"
  by (simp add: calculate_graph_proximity_weight_def find_shortest_path_length_def
      dict_get_def direct_connections_def get_default_def)

text \<open>
  Claim C10: for every entity name \<open>s\<close> and every graph, the path length of the pair
  \<open>(s, s)\<close> is 0 and its proximity weight is 0.1, the minimum bucket. Every other target
  scores strictly higher from \<open>s\<close>, and every entity that the table of direct connections
  lists for \<open>s\<close> differs from \<open>s\<close> and scores 1.0.
\<close>

theorem self_proximity_is_minimum:
  "find_shortest_path_length (Some s) s g = 0
   \<and> calculate_graph_proximity_weight (Some s) s g = 1 / 10
   \<and> (\<forall>t. t \<noteq> s \<longrightarrow>
          calculate_graph_proximity_weight (Some s) s g
            < calculate_graph_proximity_weight (Some s) t g)
   \<and> (\<forall>t \<in> set (get_default (dict_get direct_connections (Some s)) []).
          t \<noteq> s \<and> calculate_graph_proximity_weight (Some s) t g = 1)"
proof -
  have self: "find_shortest_path_length (Some s) s g = 0"
    by (simp add: find_shortest_path_length_def)
  have w_self: "calculate_graph_proximity_weight (Some s) s g = 1 / 10"
    by (simp add: calculate_graph_proximity_weight_def self)
  have other: "calculate_graph_proximity_weight (Some s) t g = 1
               \<or> calculate_graph_proximity_weight (Some s) t g = 4 / 10" if "t \<noteq> s" for t
    using that
    by (simp add: calculate_graph_proximity_weight_def find_shortest_path_length_def)
  have lower: "calculate_graph_proximity_weight (Some s) s g
                 < calculate_graph_proximity_weight (Some s) t g" if "t \<noteq> s" for t
    using other [OF that] by (auto simp: w_self)
  have nb: "t \<noteq> s \<and> calculate_graph_proximity_weight (Some s) t g = 1"
    if "t \<in> set (get_default (dict_get direct_connections (Some s)) [])" for t
  proof -
    have "t \<noteq> s"
      using that direct_connections_cases [of "Some s"]
      by (auto simp: dict_get_def direct_connections_def get_default_def)
    then show ?thesis
      using that
      by (simp add: calculate_graph_proximity_weight_def find_shortest_path_length_def)
  qed
  show ?thesis
    using self w_self lower nb by blast
qed

theorem self_proximity_is_minimum_witness:
  "''Iron'' \<noteq> ''Mars''
   \<and> ''Iron'' \<in> set (get_default (dict_get direct_connections (Some ''Mars'')) [])
   \<and> calculate_graph_proximity_weight (Some ''Mars'') ''Mars'' [] = 1 / 10
   \<and> calculate_graph_proximity_weight (Some ''Mars'') ''Mars'' []
       < calculate_graph_proximity_weight (Some ''Mars'') ''Iron'' []
   \<and> calculate_graph_proximity_weight (Some ''Mars'') ''Iron'' [] = 1"
proof -
  have a: "''Iron'' \<noteq> ''Mars''" by simp
  have b: "''Iron'' \<in> set (get_default (dict_get direct_connections (Some ''Mars'')) [])"
    by (simp add: dict_get_def direct_connections_def get_default_def)
  show ?thesis
    using a b self_proximity_is_minimum [of "''Mars''" "[]"] by blast
qed

subsection \<open>Temporal relevance\<close>

text \<open>
  Claim C4: for every relationship, hour ruler, day ruler and weekday,
  \<open>calculate_temporal_relevance\<close> is the base for the role of the source planet (1.8 for the
  hour ruler, times 0.3 for a Weekday target of another name; else 1.2 for the day ruler,
  times 1.3 for the Weekday target of the current name; else 0.6), times the multiplier of
  the relationship type (1.5, 1.0, 0.8, and 1.0 for any other type), clamped to [0.1, 2.0].
\<close>

theorem temporal_relevance_formula:
  "calculate_temporal_relevance rel h d w =
     clamp (temporal_base rel h d w * relationship_type_multiplier (relationship_type rel))
           (1 / 10) 2"
  by (simp add: calculate_temporal_relevance_def temporal_base_def
      relationship_type_multiplier_def Let_def clamp_max_min)

subsection \<open>Astrological authority\<close>

lemma get_dignity_multiplier_dignity_of:
  "get_dignity_multiplier planet s = dignity_multiplier (dignity_of planet s)"
proof (cases "dict_get ESSENTIAL_DIGNITIES planet")
  case None
  then show ?thesis
    by (simp add: get_dignity_multiplier_def dignity_of_def get_default_def)
next
  case (Some catalog)
  have flip: "(Some s = map_of catalog k) = (map_of catalog k = Some s)" for k
    by auto
  show ?thesis
    by (simp add: get_dignity_multiplier_def dignity_of_def get_default_def Some flip)
qed

lemma scale_if: "(if b then a * c else a) = a * (if b then c else (1::rat))"
  by simp

lemma scale_if2: "(if p then a * c1 else a * c2) = a * (if p then c1 else (c2::rat))"
  by simp

lemma calculate_astrological_authority_raw:
  assumes "dict_get positions planet = Some pos"
  shows "calculate_astrological_authority planet positions
           = max (min (raw_authority planet pos) 3) (1 / 10)"
  unfolding calculate_astrological_authority_def Let_def assms option.case
    get_dignity_multiplier_dignity_of raw_authority_def visibility_def combustion_def
    retrogradation_def out_of_bounds_def scale_if2 scale_if
  by (simp only: mult_1)

lemma unknown_planet_neutral:
  "dict_get ESSENTIAL_DIGNITIES planet = None \<Longrightarrow> dignity_of planet s = Neutral"
  by (simp add: dignity_of_def)

text \<open>
  Claim C2: for every planet present in the positions map,
  \<open>calculate_astrological_authority\<close> is the product of the dignity multiplier (domicile
  1.5, exaltation 1.25, detriment 0.75, fall 0.5, otherwise 1.0; a planet unknown to the
  catalog is neutral), the visibility factor, the cazimi/combustion factor, the retrograde
  factor and the out-of-bounds factor of the Moon, clamped to [0.1, 3.0]. A planet in fall,
  below the horizon, combust and retrograde has the raw product 0.063 and the result 0.1.
\<close>

theorem astrological_authority_formula:
  assumes "dict_get positions planet = Some pos"
  shows "calculate_astrological_authority planet positions
           = clamp (raw_authority planet pos) (1 / 10) 3
         \<and> (dict_get ESSENTIAL_DIGNITIES planet = None
              \<longrightarrow> dignity_of planet (get_default (sign pos) []) = Neutral)
         \<and> (dignity_of planet (get_default (sign pos) []) = Fall
              \<and> get_default (altitude pos) 0 < 0
              \<and> \<not> get_default (is_cazimi pos) False
              \<and> get_default (is_combust pos) False
              \<and> get_default (is_retrograde pos) False
              \<and> \<not> (planet = Some ''Moon'' \<and> get_default (is_out_of_bounds pos) False)
              \<longrightarrow> raw_authority planet pos = 63 / 1000
                  \<and> calculate_astrological_authority planet positions = 1 / 10)"
proof -
  have eq: "calculate_astrological_authority planet positions
              = clamp (raw_authority planet pos) (1 / 10) 3"
    using calculate_astrological_authority_raw [OF assms] by (simp add: clamp_max_min)
  have fall: "raw_authority planet pos = 63 / 1000"
    if "dignity_of planet (get_default (sign pos) []) = Fall"
       "get_default (altitude pos) 0 < 0"
       "\<not> get_default (is_cazimi pos) False"
       "get_default (is_combust pos) False"
       "get_default (is_retrograde pos) False"
       "\<not> (planet = Some ''Moon'' \<and> get_default (is_out_of_bounds pos) False)"
    using that
    by (simp add: raw_authority_def visibility_def combustion_def retrogradation_def
        out_of_bounds_def)
  have floor: "clamp (63 / 1000) (1 / 10) 3 = 1 / 10"
    by (simp add: clamp_def)
  show ?thesis
  proof (intro conjI impI)
    show "calculate_astrological_authority planet positions
            = clamp (raw_authority planet pos) (1 / 10) 3"
      by (rule eq)
  next
    assume "dict_get ESSENTIAL_DIGNITIES planet = None"
    then show "dignity_of planet (get_default (sign pos) []) = Neutral"
      by (rule unknown_planet_neutral)
  next
    assume h: "dignity_of planet (get_default (sign pos) []) = Fall
      \<and> get_default (altitude pos) 0 < 0
      \<and> \<not> get_default (is_cazimi pos) False
      \<and> get_default (is_combust pos) False
      \<and> get_default (is_retrograde pos) False
      \<and> \<not> (planet = Some ''Moon'' \<and> get_default (is_out_of_bounds pos) False)"
    then show "raw_authority planet pos = 63 / 1000"
      using fall by blast
    with eq floor show "calculate_astrological_authority planet positions = 1 / 10"
      by simp
  qed
qed

theorem astrological_authority_formula_witness:
  "dict_get [(''Saturn'', saturn_fallen)] (Some ''Saturn'') = Some saturn_fallen
   \<and> dignity_of (Some ''Saturn'') ''Aries'' = Fall
   \<and> raw_authority (Some ''Saturn'') saturn_fallen = 63 / 1000
   \<and> calculate_astrological_authority (Some ''Saturn'') [(''Saturn'', saturn_fallen)] = 1 / 10
   \<and> dict_get ESSENTIAL_DIGNITIES (Some ''Pluto'') = None
   \<and> calculate_astrological_authority (Some ''Pluto'') [(''Pluto'', saturn_fallen)]
       = clamp (raw_authority (Some ''Pluto'') saturn_fallen) (1 / 10) 3
   \<and> dignity_of (Some ''Pluto'') ''Aries'' = Neutral"
proof -
  have p: "dict_get [(''Saturn'', saturn_fallen)] (Some ''Saturn'') = Some saturn_fallen"
    by (simp add: dict_get_def)
  have q: "dict_get [(''Pluto'', saturn_fallen)] (Some ''Pluto'') = Some saturn_fallen"
    by (simp add: dict_get_def)
  have d: "dignity_of (Some ''Saturn'') ''Aries'' = Fall"
    by code_simp
  have u: "dict_get ESSENTIAL_DIGNITIES (Some ''Pluto'') = None"
    by code_simp
  have s: "get_default (sign saturn_fallen) [] = ''Aries''"
          "get_default (altitude saturn_fallen) 0 < 0"
          "\<not> get_default (is_cazimi saturn_fallen) False"
          "get_default (is_combust saturn_fallen) False"
          "get_default (is_retrograde saturn_fallen) False"
          "\<not> get_default (is_out_of_bounds saturn_fallen) False"
    by (simp_all add: saturn_fallen_def get_default_def)
  show ?thesis
    using astrological_authority_formula [OF p] astrological_authority_formula [OF q]
      p d u s by simp
qed

subsection \<open>Elemental weather\<close>

lemma weather_add_map:
  "weather_add w e x = map (\<lambda>(k, v). (k, v + (if k = e then x else 0))) w"
  by (auto simp: weather_add_def)

lemma add_ruler_map:
  "add_ruler w t c = map (\<lambda>(k, v). (k, v + contrib t k * c)) w"
proof (induction t arbitrary: w)
  case Nil
  then show ?case by (simp add: add_ruler_def)
next
  case (Cons a t)
  obtain e s where a: "a = (e, s)" by (cases a)
  have "add_ruler w (a # t) c = add_ruler (weather_add w e (s * c)) t c"
    by (simp add: add_ruler_def a)
  also have "\<dots> = map (\<lambda>(k, v). (k, v + contrib t k * c)) (weather_add w e (s * c))"
    by (rule Cons.IH)
  also have "\<dots> = map (\<lambda>(k, v). (k, v + contrib (a # t) k * c)) w"
    by (auto simp: weather_add_map a algebra_simps)
  finally show ?case .
qed

lemma contrib_map_of:
  "distinct (map fst t) \<Longrightarrow> contrib t k = (case map_of t k of None \<Rightarrow> 0 | Some s \<Rightarrow> s)"
proof (induction t)
  case Nil
  then show ?case by simp
next
  case (Cons a t)
  obtain e s where a: "a = (e, s)" by (cases a)
  show ?case
  proof (cases "e = k")
    case True
    with Cons.prems a have "map_of t k = None"
      by (simp add: map_of_eq_None_iff)
    with Cons a True show ?thesis by simp
  next
    case False
    with Cons a show ?thesis by simp
  qed
qed

lemma ruler_elements_tables:
  assumes "dict_get ruler_elements p = Some t"
  shows "t \<noteq> [] \<and> distinct (map fst t) \<and> (\<forall>(e, s) \<in> set t. e \<in> set axes \<and> 0 < s)"
proof -
  obtain n where "map_of ruler_elements n = Some t"
    using assms by (cases p) (simp_all add: dict_get_def)
  then have "(n, t) \<in> set ruler_elements"
    by (rule map_of_SomeD)
  then have "t \<in> snd ` set ruler_elements"
    by force
  then show ?thesis
    unfolding ruler_elements_def axes_def by auto
qed

lemma table_strength_contrib:
  "dict_get ruler_elements p = Some t \<Longrightarrow> table_strength p ax = contrib t ax"
  using ruler_elements_tables [of p t] by (simp add: table_strength_def contrib_map_of)

lemma table_strength_nonneg: "0 \<le> table_strength p ax"
proof (cases "dict_get ruler_elements p")
  case None
  then show ?thesis by (simp add: table_strength_def)
next
  case (Some t)
  show ?thesis
  proof (cases "map_of t ax")
    case None
    with Some show ?thesis by (simp add: table_strength_def)
  next
    case (Some s)
    then have "(ax, s) \<in> set t" by (rule map_of_SomeD)
    with ruler_elements_tables [OF \<open>dict_get ruler_elements p = Some t\<close>] have "0 < s"
      by auto
    with Some \<open>dict_get ruler_elements p = Some t\<close> show ?thesis
      by (simp add: table_strength_def)
  qed
qed

lemma table_strength_pos:
  assumes "recognized p"
  shows "\<exists>ax \<in> set axes. 0 < table_strength p ax"
proof -
  obtain t where t: "dict_get ruler_elements p = Some t"
    using assms by (auto simp: recognized_def)
  note ok = ruler_elements_tables [OF t]
  then obtain e s r where r: "t = (e, s) # r"
    by (cases t) auto
  with ok have "e \<in> set axes" "0 < s" by auto
  moreover have "table_strength p e = s"
    using t r by (simp add: table_strength_def)
  ultimately show ?thesis by auto
qed

lemma axis_total_nonneg: "0 \<le> axis_total h d ax"
  by (simp add: axis_total_def table_strength_nonneg)

lemma unnormalized_weather:
  "(let weather = map (\<lambda>k. (k, 0)) axes;
        weather = (case dict_get ruler_elements h of
                     Some table \<Rightarrow> add_ruler weather table 1
                   | None \<Rightarrow> weather)
    in (case dict_get ruler_elements d of
          Some table \<Rightarrow> if d \<noteq> h then add_ruler weather table (6 / 10) else weather
        | None \<Rightarrow> weather))
   = map (\<lambda>ax. (ax, axis_total h d ax)) axes"
proof -
  have hour: "(case dict_get ruler_elements h of
                 Some table \<Rightarrow> add_ruler (map (\<lambda>k. (k, 0)) axes) table 1
               | None \<Rightarrow> map (\<lambda>k. (k, 0)) axes)
              = map (\<lambda>ax. (ax, table_strength h ax * 1)) axes"
  proof (cases "dict_get ruler_elements h")
    case None
    then show ?thesis by (simp add: table_strength_def)
  next
    case (Some t)
    then show ?thesis
      by (simp add: add_ruler_map table_strength_contrib [OF Some] comp_def)
  qed
  show ?thesis
  proof (cases "dict_get ruler_elements d")
    case None
    then show ?thesis
      unfolding Let_def hour by (simp add: axis_total_def recognized_def)
  next
    case (Some t)
    then show ?thesis
      unfolding Let_def hour
      by (simp add: add_ruler_map table_strength_contrib [OF Some] comp_def axis_total_def
          recognized_def)
  qed
qed

lemma max_values_Max:
  assumes "xs \<noteq> []"
  shows "max_values xs = Max (set xs)"
proof (cases xs)
  case Nil
  with assms show ?thesis by simp
next
  case (Cons a list)
  then show ?thesis
    using Max.set_eq_fold [of a list] by simp
qed

lemma axes_nonempty: "axes \<noteq> []"
  by (simp add: axes_def)

lemma weather_closed_form:
  "calculate_current_elemental_weather positions h d =
     map (\<lambda>ax. (ax, if 0 < max_total h d then axis_total h d ax / max_total h d
                     else axis_total h d ax)) axes"
proof -
  have m: "max_values (map snd (map (\<lambda>ax. (ax, axis_total h d ax)) axes)) = max_total h d"
    using axes_nonempty by (simp add: max_values_Max max_total_def comp_def)
  have ne: "map snd (map (\<lambda>ax. (ax, axis_total h d ax)) axes) \<noteq> []"
    using axes_nonempty by simp
  show ?thesis
    unfolding calculate_current_elemental_weather_def
    using unnormalized_weather [of h d] m ne
    by (simp add: Let_def comp_def)
qed


text \<open>
  Claim C5: for every hour ruler and day ruler the weather vector lists, for each of the
  eight axes, the axis total (the hour ruler's table at 1.0 plus, for a recognized day
  ruler distinct from the hour ruler, the day ruler's table at 0.6) divided by the maximum
  axis total. When a ruler is recognized the maximum is positive, the dominant axis is
  exactly 1 and every axis lies in [0, 1]; when none is, the vector is all zero and nothing
  is divided. For Mars and Saturn the maximum is Dry = 0.7 + 0.48 = 1.18, normalized to 1.
\<close>

theorem elemental_weather_normalized:
  "calculate_current_elemental_weather positions h d =
     map (\<lambda>ax. (ax, if 0 < max_total h d then axis_total h d ax / max_total h d
                     else axis_total h d ax)) axes
   \<and> (recognized h \<or> recognized d \<longrightarrow>
        0 < max_total h d
        \<and> (\<exists>ax \<in> set axes. axis_total h d ax = max_total h d
              \<and> map_of (calculate_current_elemental_weather positions h d) ax = Some 1)
        \<and> (\<forall>ax \<in> set axes. \<exists>v. 
              map_of (calculate_current_elemental_weather positions h d) ax = Some v
              \<and> 0 \<le> v \<and> v \<le> 1))
   \<and> (\<not> recognized h \<and> \<not> recognized d \<longrightarrow>
        max_total h d = 0
        \<and> calculate_current_elemental_weather positions h d = map (\<lambda>ax. (ax, 0)) axes)
   \<and> axis_total (Some ''Mars'') (Some ''Saturn'') ''Dry'' = 7 / 10 + 48 / 100
   \<and> max_total (Some ''Mars'') (Some ''Saturn'') = 118 / 100
   \<and> map_of (calculate_current_elemental_weather positions (Some ''Mars'') (Some ''Saturn''))
        ''Dry'' = Some 1"
proof -
  let ?w = "calculate_current_elemental_weather positions h d"
  let ?M = "max_total h d"
  have cf: "?w = map (\<lambda>ax. (ax, if 0 < ?M then axis_total h d ax / ?M
                              else axis_total h d ax)) axes"
    by (rule weather_closed_form)
  have lookup: "map_of ?w ax = Some (if 0 < ?M then axis_total h d ax / ?M
                                     else axis_total h d ax)"
    if "ax \<in> set axes" for ax
    unfolding cf using that by (simp add: map_of_map_restrict)
  have fin: "finite (axis_total h d ` set axes)" "axis_total h d ` set axes \<noteq> {}"
    using axes_nonempty by simp_all
  have le: "axis_total h d ax \<le> ?M" if "ax \<in> set axes" for ax
    unfolding max_total_def using that by (intro Max_ge) simp_all
  have attained: "\<exists>ax \<in> set axes. axis_total h d ax = ?M"
    using Max_in [OF fin] unfolding max_total_def by auto
  have rec: "0 < ?M" if "recognized h \<or> recognized d"
  proof -
    have "\<exists>ax \<in> set axes. 0 < axis_total h d ax"
    proof (cases "recognized h")
      case True
      then obtain ax where "ax \<in> set axes" "0 < table_strength h ax"
        using table_strength_pos by blast
      moreover have "table_strength h ax \<le> axis_total h d ax"
        by (simp add: axis_total_def table_strength_nonneg)
      ultimately show ?thesis by force
    next
      case False
      with that have d: "recognized d" "d \<noteq> h" by auto
      then obtain ax where "ax \<in> set axes" "0 < table_strength d ax"
        using table_strength_pos by blast
      moreover have "table_strength d ax * (6 / 10) \<le> axis_total h d ax"
        using d by (simp add: axis_total_def table_strength_nonneg)
      ultimately show ?thesis
        by (metis divide_pos_pos less_le_trans mult_pos_pos zero_less_numeral)
    qed
    then show ?thesis
      using le by force
  qed
  have part2: "0 < ?M
        \<and> (\<exists>ax \<in> set axes. axis_total h d ax = ?M \<and> map_of ?w ax = Some 1)
        \<and> (\<forall>ax \<in> set axes. \<exists>v. map_of ?w ax = Some v \<and> 0 \<le> v \<and> v \<le> 1)"
    if r: "recognized h \<or> recognized d"
  proof (intro conjI ballI)
    show pos: "0 < ?M" by (rule rec [OF r])
    from attained obtain ax where ax: "ax \<in> set axes" "axis_total h d ax = ?M"
      by blast
    with pos lookup [OF ax(1)] have "map_of ?w ax = Some 1"
      by simp
    with ax show "\<exists>ax \<in> set axes. axis_total h d ax = ?M \<and> map_of ?w ax = Some 1"
      by blast
    fix ax
    assume a: "ax \<in> set axes"
    have "0 \<le> axis_total h d ax / ?M" "axis_total h d ax / ?M \<le> 1"
      using pos le [OF a] axis_total_nonneg [of h d ax] by simp_all
    with pos lookup [OF a] show "\<exists>v. map_of ?w ax = Some v \<and> 0 \<le> v \<and> v \<le> 1"
      by simp
  qed
  have part3: "?M = 0 \<and> ?w = map (\<lambda>ax. (ax, 0)) axes"
    if n: "\<not> recognized h \<and> \<not> recognized d"
  proof -
    have z: "axis_total h d ax = 0" for ax
      using n by (simp add: axis_total_def table_strength_def recognized_def)
    have "?M = 0"
      using attained z by auto
    then show ?thesis
      unfolding cf by (simp add: z)
  qed
  have inst1: "axis_total (Some ''Mars'') (Some ''Saturn'') ''Dry'' = 7 / 10 + 48 / 100"
    by code_simp
  have inst2: "max_total (Some ''Mars'') (Some ''Saturn'') = 118 / 100"
    by code_simp
  have inst3: "map_of (calculate_current_elemental_weather positions (Some ''Mars'')
                        (Some ''Saturn'')) ''Dry'' = Some 1"
    unfolding weather_closed_form inst2
    by (simp add: map_of_map_restrict axes_def inst1 [simplified])
  show ?thesis
    using cf part2 part3 inst1 inst2 inst3 by blast
qed

theorem elemental_weather_normalized_witness:
  "recognized (Some ''Mars'') \<and> \<not> recognized None \<and> \<not> recognized (Some ''Pluto'')
   \<and> ''Dry'' \<in> set axes
   \<and> calculate_current_elemental_weather [] (Some ''Mars'') (Some ''Saturn'') =
       [(''Fire'', 45 / 59), (''Earth'', 27 / 59), (''Air'', 0), (''Water'', 0),
        (''Hot'', 40 / 59), (''Cold'', 27 / 59), (''Dry'', 1), (''Moist'', 0)]
   \<and> max_total (Some ''Mars'') (Some ''Saturn'') = 59 / 50
   \<and> 0 < max_total (Some ''Mars'') (Some ''Saturn'')
   \<and> (\<exists>v. map_of (calculate_current_elemental_weather [] (Some ''Mars'') (Some ''Saturn''))
              ''Dry'' = Some v \<and> 0 \<le> v \<and> v \<le> 1)
   \<and> calculate_current_elemental_weather [] None (Some ''Pluto'') = map (\<lambda>ax. (ax, 0)) axes"
proof -
  have r: "recognized (Some ''Mars'')" "\<not> recognized None" "\<not> recognized (Some ''Pluto'')"
    by code_simp+
  have a: "''Dry'' \<in> set axes"
    by (simp add: axes_def)
  have w: "calculate_current_elemental_weather [] (Some ''Mars'') (Some ''Saturn'') =
       [(''Fire'', 45 / 59), (''Earth'', 27 / 59), (''Air'', 0), (''Water'', 0),
        (''Hot'', 40 / 59), (''Cold'', 27 / 59), (''Dry'', 1), (''Moist'', 0)]"
    by code_simp
  note mars_saturn = elemental_weather_normalized [of "[]" "Some ''Mars''" "Some ''Saturn''"]
  note unrecognized = elemental_weather_normalized [of "[]" None "Some ''Pluto''"]
  have m: "max_total (Some ''Mars'') (Some ''Saturn'') = 59 / 50"
    using mars_saturn by simp
  have z: "calculate_current_elemental_weather [] None (Some ''Pluto'')
             = map (\<lambda>ax. (ax, 0)) axes"
    using unrecognized r by blast
  have p: "0 < max_total (Some ''Mars'') (Some ''Saturn'')"
    using mars_saturn r(1) by blast
  have b: "\<exists>v. map_of (calculate_current_elemental_weather [] (Some ''Mars'') (Some ''Saturn''))
              ''Dry'' = Some v \<and> 0 \<le> v \<and> v \<le> 1"
    using mars_saturn r(1) a by blast
  show ?thesis
    using r a w m z p b by blast
qed

subsection \<open>Rounding\<close>

lemma round_half_even_close: "\<bar>of_int (round_half_even y) - y\<bar> \<le> 1 / 2"
proof -
  define r where "r = y - of_int \<lfloor>y\<rfloor>"
  have fl: "of_int \<lfloor>y\<rfloor> \<le> y" "y < of_int \<lfloor>y\<rfloor> + 1"
    by linarith+
  show ?thesis
  proof (cases "r < 1 / 2")
    case True
    then have "round_half_even y = \<lfloor>y\<rfloor>"
      by (simp add: round_half_even_def r_def Let_def)
    with True fl show ?thesis unfolding r_def by simp
  next
    case False
    note nlt = this
    show ?thesis
    proof (cases "1 / 2 < r")
      case True
      with nlt have "round_half_even y = \<lfloor>y\<rfloor> + 1"
        by (simp add: round_half_even_def r_def Let_def)
      with True fl show ?thesis unfolding r_def by simp
    next
      case False
      with nlt have half: "r = 1 / 2" by simp
      then have "round_half_even y = \<lfloor>y\<rfloor> \<or> round_half_even y = \<lfloor>y\<rfloor> + 1"
        by (simp add: round_half_even_def r_def Let_def)
      with half show ?thesis unfolding r_def by auto
    qed
  qed
qed

lemma py_round_grid: "\<exists>k::int. py_round x n = of_int k / 10 ^ n"
  by (auto simp: py_round_def)

lemma py_round_close: "\<bar>py_round x n - x\<bar> \<le> 1 / (2 * 10 ^ n)"
proof -
  define s :: rat where "s = 10 ^ n"
  define k :: rat where "k = of_int (round_half_even (x * s))"
  have s: "0 < s" by (simp add: s_def)
  have "py_round x n - x = (k - x * s) / s"
    using s by (simp add: py_round_def k_def s_def diff_divide_distrib)
  then have "\<bar>py_round x n - x\<bar> = \<bar>k - x * s\<bar> / s"
    using s by (simp add: abs_divide)
  also have "\<dots> \<le> (1 / 2) / s"
    using round_half_even_close [of "x * s"] s unfolding k_def
    by (intro divide_right_mono) simp_all
  finally show ?thesis
    by (simp add: s_def)
qed

subsection \<open>The master weighting function\<close>

text \<open>With no rounding the functions over \<open>fl\<close> are the exact functions.\<close>

lemma exact_scorers:
  "calculate_graph_proximity_weight_fp exact = calculate_graph_proximity_weight"
  "get_dignity_multiplier_fp exact = get_dignity_multiplier"
  "calculate_astrological_authority_fp exact = calculate_astrological_authority"
  "calculate_temporal_relevance_fp exact = calculate_temporal_relevance"
  "calculate_elemental_dominance_fp exact = calculate_elemental_dominance"
proof -
  show dm: "get_dignity_multiplier_fp exact = get_dignity_multiplier"
    unfolding fun_eq_iff get_dignity_multiplier_fp_def get_dignity_multiplier_def exact_def
    by (rule allI refl)+
  show "calculate_graph_proximity_weight_fp exact = calculate_graph_proximity_weight"
    unfolding fun_eq_iff calculate_graph_proximity_weight_fp_def
      calculate_graph_proximity_weight_def exact_def
    by (rule allI refl)+
  show "calculate_astrological_authority_fp exact = calculate_astrological_authority"
    unfolding fun_eq_iff calculate_astrological_authority_fp_def
      calculate_astrological_authority_def dm exact_def
    by (rule allI refl)+
  show "calculate_temporal_relevance_fp exact = calculate_temporal_relevance"
    unfolding fun_eq_iff calculate_temporal_relevance_fp_def
      calculate_temporal_relevance_def exact_def
    by (rule allI refl)+
  show "calculate_elemental_dominance_fp exact = calculate_elemental_dominance"
    unfolding fun_eq_iff calculate_elemental_dominance_fp_def
      calculate_elemental_dominance_def exact_def
    by (rule allI refl)+
qed

lemma exact_weather:
  "calculate_current_elemental_weather_fp exact = calculate_current_elemental_weather"
proof -
  have r: "ruler_elements_fp exact = ruler_elements"
    unfolding ruler_elements_fp_def exact_def by simp
  have w: "weather_add_fp exact = weather_add"
    unfolding fun_eq_iff weather_add_fp_def weather_add_def exact_def
    by (rule allI refl)+
  have a: "add_ruler_fp exact = add_ruler"
    unfolding fun_eq_iff add_ruler_fp_def add_ruler_def w exact_def
    by (rule allI refl)+
  show ?thesis
    unfolding fun_eq_iff calculate_current_elemental_weather_fp_def
      calculate_current_elemental_weather_def r a exact_def
    by (rule allI refl)+
qed

lemma exact_master:
  "calculate_final_weight_fp exact (GraphWeightingEngine_init_fp exact)
     = calculate_final_weight GraphWeightingEngine_init"
proof -
  have d: "data_completeness_fp exact = data_completeness"
    unfolding fun_eq_iff data_completeness_fp_def data_completeness_def exact_def
    by (rule allI refl)+
  have s: "weight_stability_fp exact = weight_stability"
    unfolding fun_eq_iff weight_stability_fp_def weight_stability_def exact_def
    by (rule allI refl)+
  have c: "calculate_confidence_fp exact = calculate_confidence"
    unfolding fun_eq_iff calculate_confidence_fp_def calculate_confidence_def
      py_round_fp_def d s exact_def
    by (rule allI refl)+
  have k: "calculate_rank_fp exact = calculate_rank"
    unfolding fun_eq_iff calculate_rank_fp_def calculate_rank_def exact_def
    by (rule allI refl)+
  have i: "GraphWeightingEngine_init_fp exact = GraphWeightingEngine_init"
    unfolding GraphWeightingEngine_init_fp_def GraphWeightingEngine_init_def exact_def
    by (rule refl)
  show ?thesis
    unfolding fun_eq_iff calculate_final_weight_fp_def calculate_final_weight_def
      exact_scorers exact_weather c k i py_round_fp_def exact_def
    by (rule allI refl)+
qed

lemma no_elements_fp:
  "get_entity_elements tgt = [] \<Longrightarrow> calculate_elemental_dominance_fp fl tgt w = fl 1"
  by (simp add: calculate_elemental_dominance_fp_def)

lemma calculate_final_weight_fp_fields:
  assumes "target_entity rel = Some tgt"
  shows "\<exists>r. calculate_final_weight_fp fl self rel ctx = Inr r
     \<and> final_weight r = fl (py_round (weighted_sum_fp fl self rel tgt ctx) 3)
     \<and> rank r = calculate_rank_fp fl (weighted_sum_fp fl self rel tgt ctx)
     \<and> confidence r = calculate_confidence_fp fl (weighted_sum_fp fl self rel tgt ctx) ctx"
  using assms
  by (simp add: calculate_final_weight_fp_def weighted_sum_fp_def py_round_fp_def Let_def)

text \<open>
  The source's own scenario (Mars to Sachiel in a Mars hour on a Saturday) in doubles: the
  sum is 1.5500000000000003, the final weight 1.55 and the confidence 0.543, where exact
  arithmetic meets the decimal tie 0.5425 and gives 0.542.
\<close>

lemma repo_scenario_in_doubles:
  "map_sum id final_weight
     (calculate_final_weight_fp ieee_double (GraphWeightingEngine_init_fp ieee_double)
        mars_sachiel context_saturday_mars) = Inr (ieee_double (1550 / 1000))
   \<and> map_sum id confidence
       (calculate_final_weight_fp ieee_double (GraphWeightingEngine_init_fp ieee_double)
          mars_sachiel context_saturday_mars) = Inr (ieee_double (543 / 1000))
   \<and> map_sum id confidence
       (calculate_final_weight GraphWeightingEngine_init mars_sachiel context_saturday_mars)
       = Inr (542 / 1000)"
proof -
  let ?tgt = "\<lparr>entity_name = Some ''Sachiel'', entity_type = Some ''Angel''\<rparr>"
  let ?E = "GraphWeightingEngine_init_fp ieee_double"
  have t: "target_entity mars_sachiel = Some ?tgt"
    by (simp add: mars_sachiel_def)
  have e: "calculate_elemental_dominance_fp ieee_double ?tgt w = ieee_double 1" for w
    by (rule no_elements_fp) code_simp
  have w: "weighted_sum_fp ieee_double ?E mars_sachiel ?tgt context_saturday_mars
             = 3490289711212135 / 2251799813685248"
    unfolding weighted_sum_fp_def e by code_simp
  have f: "ieee_double (py_round (3490289711212135 / 2251799813685248) 3)
             = ieee_double (1550 / 1000)"
    by code_simp
  have c: "calculate_confidence_fp ieee_double (3490289711212135 / 2251799813685248)
             context_saturday_mars = ieee_double (543 / 1000)"
    by code_simp
  have x: "map_sum id confidence
       (calculate_final_weight GraphWeightingEngine_init mars_sachiel context_saturday_mars)
       = Inr (542 / 1000)"
    by code_simp
  from calculate_final_weight_fp_fields [OF t, of ieee_double ?E context_saturday_mars]
  obtain r where
    "calculate_final_weight_fp ieee_double ?E mars_sachiel context_saturday_mars = Inr r"
    "final_weight r = ieee_double (1550 / 1000)" "confidence r = ieee_double (543 / 1000)"
    unfolding w f c by blast
  with x show ?thesis
    by simp
qed

text \<open>
  Claim C1: for every relationship with a target entity and every context, in the
  arithmetic of the program (every rounding \<open>fl\<close>, in particular \<open>ieee_double\<close>),
  \<open>calculate_final_weight\<close> with the default coefficients returns a result whose
  \<open>final_weight\<close> is the proximity score times 0.3 plus the authority score times 0.4 plus
  the temporal score times 0.2 plus the elemental score times 0.1, summed from the left,
  rounded to 3 decimals: the double of a multiple of 0.001 at most 0.0005 away from the
  sum. The four scores are those of the component scorers on the inputs of the call.
\<close>

theorem final_weight_is_weighted_sum:
  assumes "target_entity rel = Some tgt"
  shows "let g = calculate_graph_proximity_weight_fp fl (source_planet rel)
                   (get_default (entity_name tgt) []) (get_default (graph_data ctx) []);
             a = calculate_astrological_authority_fp fl (source_planet rel)
                   (get_default (planetary_positions ctx) []);
             t = calculate_temporal_relevance_fp fl rel (hour_ruler ctx) (day_ruler ctx)
                   (current_weekday ctx);
             e = calculate_elemental_dominance_fp fl tgt
                   (calculate_current_elemental_weather_fp fl
                      (get_default (planetary_positions ctx) []) (hour_ruler ctx)
                      (day_ruler ctx));
             s = fl (fl (fl (fl (g * fl (3 / 10)) + fl (a * fl (4 / 10)))
                         + fl (t * fl (2 / 10)))
                     + fl (e * fl (1 / 10)))
         in \<exists>r. calculate_final_weight_fp fl (GraphWeightingEngine_init_fp fl) rel ctx = Inr r
               \<and> final_weight r = fl (py_round s 3)
               \<and> (\<exists>k::int. py_round s 3 = of_int k / 1000)
               \<and> \<bar>py_round s 3 - s\<bar> \<le> 1 / 2000"
  using assms py_round_grid [of _ 3] py_round_close [of _ 3]
  by (simp add: calculate_final_weight_fp_def GraphWeightingEngine_init_fp_def Let_def
      py_round_fp_def)

theorem final_weight_is_weighted_sum_witness:
  "target_entity mars_sachiel
     = Some \<lparr>entity_name = Some ''Sachiel'', entity_type = Some ''Angel''\<rparr>
   \<and> map_sum id final_weight
       (calculate_final_weight_fp ieee_double (GraphWeightingEngine_init_fp ieee_double)
          mars_sachiel mars_combust_capricorn)
       = Inr (ieee_double (py_round (8894609264056729 / 9007199254740992) 3))
   \<and> py_round (8894609264056729 / 9007199254740992) 3 = 987 / 1000"
proof -
  let ?tgt = "\<lparr>entity_name = Some ''Sachiel'', entity_type = Some ''Angel''\<rparr>"
  have t: "target_entity mars_sachiel = Some ?tgt"
    by (simp add: mars_sachiel_def)
  have e: "calculate_elemental_dominance_fp ieee_double ?tgt w = ieee_double 1" for w
    by (rule no_elements_fp) code_simp
  have s: "ieee_double
             (ieee_double
                (ieee_double
                   (ieee_double
                      (calculate_graph_proximity_weight_fp ieee_double
                         (source_planet mars_sachiel) (get_default (entity_name ?tgt) [])
                         (get_default (graph_data mars_combust_capricorn) [])
                       * ieee_double (3 / 10))
                    + ieee_double
                        (calculate_astrological_authority_fp ieee_double
                           (source_planet mars_sachiel)
                           (get_default (planetary_positions mars_combust_capricorn) [])
                         * ieee_double (4 / 10)))
                 + ieee_double
                     (calculate_temporal_relevance_fp ieee_double mars_sachiel
                        (hour_ruler mars_combust_capricorn) (day_ruler mars_combust_capricorn)
                        (current_weekday mars_combust_capricorn)
                      * ieee_double (2 / 10)))
              + ieee_double (ieee_double 1 * ieee_double (1 / 10)))
           = 8894609264056729 / 9007199254740992"
    by code_simp
  have p: "py_round (8894609264056729 / 9007199254740992) 3 = 987 / 1000"
    by code_simp
  from final_weight_is_weighted_sum [OF t, of ieee_double mars_combust_capricorn]
  obtain r where
    "calculate_final_weight_fp ieee_double (GraphWeightingEngine_init_fp ieee_double)
       mars_sachiel mars_combust_capricorn = Inr r"
    "final_weight r = ieee_double (py_round (8894609264056729 / 9007199254740992) 3)"
    unfolding Let_def e s by blast
  with t p show ?thesis
    by simp
qed

subsection \<open>Rank\<close>

lemma round_half_even_bounds:
  "\<lfloor>z\<rfloor> \<le> round_half_even z" "round_half_even z \<le> \<lfloor>z\<rfloor> + 1"
  by (simp_all add: round_half_even_def Let_def)

lemma round_half_even_mono:
  assumes "x \<le> y"
  shows "round_half_even x \<le> round_half_even y"
proof (cases "\<lfloor>x\<rfloor> < \<lfloor>y\<rfloor>")
  case True
  then show ?thesis
    using round_half_even_bounds(2) [of x] round_half_even_bounds(1) [of y] by linarith
next
  case False
  with assms have eq: "\<lfloor>x\<rfloor> = \<lfloor>y\<rfloor>"
    using floor_mono [of x y] by linarith
  show ?thesis
    using assms unfolding round_half_even_def Let_def eq by auto
qed

lemma round_half_even_of_int: "round_half_even (of_int k) = k"
  by (simp add: round_half_even_def)

lemma py_round_mono: "x \<le> y \<Longrightarrow> py_round x n \<le> py_round y n"
  unfolding py_round_def
  by (intro divide_right_mono round_half_even_mono mult_right_mono iffD2 [OF of_int_le_iff])
     simp_all

lemma py_round_fixed: "py_round (of_int k / 10 ^ n) n = of_int k / 10 ^ n"
  by (simp add: py_round_def round_half_even_of_int)

lemma calculate_final_weight_fields:
  assumes "target_entity rel = Some tgt"
  shows "\<exists>r. calculate_final_weight self rel ctx = Inr r
     \<and> final_weight r = py_round (weighted_sum self rel tgt ctx) 3
     \<and> graph_proximity (breakdown r) =
         py_round (calculate_graph_proximity_weight (source_planet rel)
           (get_default (entity_name tgt) []) (get_default (graph_data ctx) [])) 3
     \<and> astrological_authority (breakdown r) =
         py_round (calculate_astrological_authority (source_planet rel)
           (get_default (planetary_positions ctx) [])) 3
     \<and> temporal_relevance (breakdown r) =
         py_round (calculate_temporal_relevance rel (hour_ruler ctx) (day_ruler ctx)
           (current_weekday ctx)) 3
     \<and> rank r = calculate_rank (weighted_sum self rel tgt ctx)
     \<and> confidence r = calculate_confidence (weighted_sum self rel tgt ctx) ctx"
  using assms by (simp add: calculate_final_weight_def weighted_sum_def Let_def)

lemma rank_separated:
  assumes "calculate_rank a \<noteq> calculate_rank b"
  shows "\<exists>t \<in> set rank_thresholds. (a < t \<and> t \<le> b) \<or> (b < t \<and> t \<le> a)"
proof (rule ccontr)
  assume "\<not> ?thesis"
  then have same: "\<And>t. t \<in> set rank_thresholds \<Longrightarrow> (t \<le> a) = (t \<le> b)"
    by (meson not_le)
  have m: "1 / 2 \<in> set rank_thresholds" "1 \<in> set rank_thresholds"
    "3 / 2 \<in> set rank_thresholds" "2 \<in> set rank_thresholds"
    by (simp_all add: rank_thresholds_def)
  have "(1 / 2 \<le> a) = (1 / 2 \<le> b)" "(1 \<le> a) = (1 \<le> b)"
    "(3 / 2 \<le> a) = (3 / 2 \<le> b)" "(2 \<le> a) = (2 \<le> b)"
    by (rule same [OF m(1)], rule same [OF m(2)], rule same [OF m(3)], rule same [OF m(4)])
  then have "calculate_rank a = calculate_rank b"
    unfolding calculate_rank_def by simp
  with assms show False by simp
qed

lemma thresholds_on_grid:
  assumes "t \<in> set rank_thresholds"
  shows "py_round t 3 = t"
proof -
  have "t = of_int 500 / 10 ^ 3 \<or> t = of_int 1000 / 10 ^ 3
        \<or> t = of_int 1500 / 10 ^ 3 \<or> t = of_int 2000 / 10 ^ 3"
    using assms by (auto simp: rank_thresholds_def)
  then show ?thesis
    using py_round_fixed [of _ 3] by metis
qed

lemma rank_fp_fixed_cuts:
  assumes "fl 2 = 2" "fl (3 / 2) = 3 / 2" "fl 1 = 1" "fl (1 / 2) = 1 / 2"
  shows "calculate_rank_fp fl = calculate_rank"
  unfolding fun_eq_iff calculate_rank_fp_def calculate_rank_def assms
  by (rule allI refl)+

lemma rounded_onto_threshold:
  assumes t: "t \<in> set rank_thresholds" and lt: "w < t" and le: "t \<le> py_round w 3"
  shows "py_round w 3 = t \<and> t - 1 / 2000 \<le> w"
proof -
  obtain k :: int where k: "py_round w 3 = of_int k / 10 ^ 3"
    using py_round_grid [of w 3] by blast
  have "t = of_int 500 / 10 ^ 3 \<or> t = of_int 1000 / 10 ^ 3
        \<or> t = of_int 1500 / 10 ^ 3 \<or> t = of_int 2000 / 10 ^ 3"
    using t by (auto simp: rank_thresholds_def)
  then obtain j :: int where j: "t = of_int j / 10 ^ 3"
    by blast
  have c: "\<bar>py_round w 3 - w\<bar> \<le> 1 / 2000"
    using py_round_close [of w 3] by simp
  have "(of_int j :: rat) \<le> of_int k"
    using le unfolding k j by (simp add: divide_le_cancel)
  then have jk: "j \<le> k" by simp
  have "py_round w 3 < t + 1 / 2000"
    using c lt by linarith
  then have "(of_int k :: rat) < of_int j + 1 / 2"
    unfolding k j by (simp add: field_simps)
  then have "(of_int k :: rat) < of_int (j + 1)"
    by simp
  then have "k < j + 1"
    using of_int_less_iff by blast
  with jk have "k = j" by simp
  then have eq: "py_round w 3 = t"
    by (simp add: k j)
  with c lt show ?thesis
    by linarith
qed

text \<open>
  Claim C6, amended: in the arithmetic of the program (every rounding that leaves the four
  cut points unchanged, as \<open>ieee_double\<close> does), for every coefficient set, relationship with
  a target entity and context, the rank label is \<open>calculate_rank\<close>, whose cut points 2.0,
  1.5, 1.0 and 0.5 do not mention the coefficients, applied to the weighted sum before it
  is rounded. It is the label of the 3-decimal value unless the sum lies at most 0.0005
  below a cut point and \<open>final_weight\<close> is that cut point.
\<close>

theorem rank_from_unrounded_weight:
  assumes "target_entity rel = Some tgt"
    and "fl 2 = 2" and "fl (3 / 2) = 3 / 2" and "fl 1 = 1" and "fl (1 / 2) = 1 / 2"
  shows "\<exists>r. calculate_final_weight_fp fl self rel ctx = Inr r
           \<and> final_weight r = fl (py_round (weighted_sum_fp fl self rel tgt ctx) 3)
           \<and> rank r = calculate_rank (weighted_sum_fp fl self rel tgt ctx)
           \<and> (rank r \<noteq> calculate_rank (py_round (weighted_sum_fp fl self rel tgt ctx) 3) \<longrightarrow>
                (\<exists>t \<in> set rank_thresholds.
                    final_weight r = t
                    \<and> py_round (weighted_sum_fp fl self rel tgt ctx) 3 = t
                    \<and> t - 1 / 2000 \<le> weighted_sum_fp fl self rel tgt ctx
                    \<and> weighted_sum_fp fl self rel tgt ctx < t))"
proof -
  let ?w = "weighted_sum_fp fl self rel tgt ctx"
  have fixed: "fl t = t" if "t \<in> set rank_thresholds" for t
  proof -
    from that have "t = 1 / 2 \<or> t = 1 \<or> t = 3 / 2 \<or> t = 2 \<or> False"
      unfolding rank_thresholds_def by (simp only: list.set insert_iff empty_iff)
    then show ?thesis
      using assms(2-5) by metis
  qed
  have near: "\<exists>t \<in> set rank_thresholds.
                fl (py_round ?w 3) = t \<and> py_round ?w 3 = t \<and> t - 1 / 2000 \<le> ?w \<and> ?w < t"
    if "calculate_rank ?w \<noteq> calculate_rank (py_round ?w 3)"
  proof -
    from rank_separated [OF that] obtain t where t: "t \<in> set rank_thresholds"
      and sep: "(?w < t \<and> t \<le> py_round ?w 3) \<or> (py_round ?w 3 < t \<and> t \<le> ?w)"
      by blast
    have "\<not> (py_round ?w 3 < t \<and> t \<le> ?w)"
      using py_round_mono [of t ?w 3] thresholds_on_grid [OF t] by auto
    with sep have lt: "?w < t" and le: "t \<le> py_round ?w 3"
      by auto
    from rounded_onto_threshold [OF t lt le]
    have eq: "py_round ?w 3 = t" and lo: "t - 1 / 2000 \<le> ?w"
      by auto
    have "fl (py_round ?w 3) = t"
      unfolding eq by (rule fixed [OF t])
    with t eq lo lt show ?thesis by blast
  qed
  from calculate_final_weight_fp_fields [OF assms(1), of fl self ctx]
  obtain r where r: "calculate_final_weight_fp fl self rel ctx = Inr r"
    "final_weight r = fl (py_round ?w 3)" "rank r = calculate_rank_fp fl ?w"
    by blast
  have k: "rank r = calculate_rank ?w"
    unfolding r(3) rank_fp_fixed_cuts [OF assms(2-5)] by (rule refl)
  show ?thesis
    using r(1) r(2) k near by auto
qed

theorem rank_from_unrounded_weight_witness:
  "target_entity mars_sachiel
     = Some \<lparr>entity_name = Some ''Sachiel'', entity_type = Some ''Angel''\<rparr>
   \<and> ieee_double 2 = 2 \<and> ieee_double (3 / 2) = 3 / 2
   \<and> ieee_double 1 = 1 \<and> ieee_double (1 / 2) = 1 / 2
   \<and> weighted_sum_fp ieee_double (GraphWeightingEngine_init_fp ieee_double) mars_sachiel
        \<lparr>entity_name = Some ''Sachiel'', entity_type = Some ''Angel''\<rparr> mars_leo_saturn_hour
       = 9007199254740991 / 9007199254740992
   \<and> map_sum id rank
        (calculate_final_weight_fp ieee_double (GraphWeightingEngine_init_fp ieee_double)
           mars_sachiel mars_leo_saturn_hour) = Inr ''weak''
   \<and> map_sum id final_weight
        (calculate_final_weight_fp ieee_double (GraphWeightingEngine_init_fp ieee_double)
           mars_sachiel mars_leo_saturn_hour) = Inr 1
   \<and> calculate_rank (py_round (9007199254740991 / 9007199254740992) 3) = ''moderate''
   \<and> 1 \<in> set rank_thresholds"
proof -
  let ?tgt = "\<lparr>entity_name = Some ''Sachiel'', entity_type = Some ''Angel''\<rparr>"
  let ?E = "GraphWeightingEngine_init_fp ieee_double"
  have t: "target_entity mars_sachiel = Some ?tgt"
    by (simp add: mars_sachiel_def)
  have c: "ieee_double 2 = 2" "ieee_double (3 / 2) = 3 / 2"
    "ieee_double 1 = 1" "ieee_double (1 / 2) = 1 / 2"
    by code_simp+
  have e: "calculate_elemental_dominance_fp ieee_double ?tgt w = ieee_double 1" for w
    by (rule no_elements_fp) code_simp
  have w: "weighted_sum_fp ieee_double ?E mars_sachiel ?tgt mars_leo_saturn_hour
             = 9007199254740991 / 9007199254740992"
    unfolding weighted_sum_fp_def e by code_simp
  have k: "calculate_rank (9007199254740991 / 9007199254740992) = ''weak''"
    by code_simp
  have p: "py_round (9007199254740991 / 9007199254740992) 3 = 1"
    by code_simp
  have m: "calculate_rank (py_round (9007199254740991 / 9007199254740992) 3) = ''moderate''"
    unfolding p by code_simp
  have th: "1 \<in> set rank_thresholds"
    by (simp add: rank_thresholds_def)
  from rank_from_unrounded_weight [OF t c, of ?E mars_leo_saturn_hour]
  obtain r where
    "calculate_final_weight_fp ieee_double ?E mars_sachiel mars_leo_saturn_hour = Inr r"
    "final_weight r = ieee_double (py_round (9007199254740991 / 9007199254740992) 3)"
    "rank r = calculate_rank (9007199254740991 / 9007199254740992)"
    unfolding w by blast
  then have "map_sum id rank
        (calculate_final_weight_fp ieee_double ?E mars_sachiel mars_leo_saturn_hour)
          = Inr ''weak''"
    and "map_sum id final_weight
        (calculate_final_weight_fp ieee_double ?E mars_sachiel mars_leo_saturn_hour) = Inr 1"
    unfolding p k c by simp_all
  with t c w m th show ?thesis
    by blast
qed

text \<open>
  The claim as stated (the thresholds applied to the rounded \<open>final_weight\<close>) fails for
  the Sun in Leo at altitude 25.08: the sum is 0.9996, reported as 1.0 with rank weak, in
  exact arithmetic and in doubles.
\<close>

theorem rank_of_rounded_weight_counterexample:
  "map_sum id final_weight
     (calculate_final_weight GraphWeightingEngine_init sun_topaz context_sun_rising) = Inr 1
   \<and> map_sum id rank
       (calculate_final_weight GraphWeightingEngine_init sun_topaz context_sun_rising)
       = Inr ''weak''
   \<and> calculate_rank 1 = ''moderate''
   \<and> map_sum id final_weight
       (calculate_final_weight_fp ieee_double (GraphWeightingEngine_init_fp ieee_double)
          sun_topaz (context_sun_rising_fp ieee_double)) = Inr 1
   \<and> map_sum id rank
       (calculate_final_weight_fp ieee_double (GraphWeightingEngine_init_fp ieee_double)
          sun_topaz (context_sun_rising_fp ieee_double)) = Inr ''weak''
   \<and> calculate_rank_fp ieee_double 1 = ''moderate''"
proof -
  let ?tgt = "\<lparr>entity_name = Some ''Topaz'', entity_type = Some ''Stone''\<rparr>"
  let ?E = "GraphWeightingEngine_init_fp ieee_double"
  let ?ctx = "context_sun_rising_fp ieee_double"
  have x: "map_sum id final_weight
     (calculate_final_weight GraphWeightingEngine_init sun_topaz context_sun_rising) = Inr 1
   \<and> map_sum id rank
       (calculate_final_weight GraphWeightingEngine_init sun_topaz context_sun_rising)
       = Inr ''weak''
   \<and> calculate_rank 1 = ''moderate''"
    by code_simp
  have t: "target_entity sun_topaz = Some ?tgt"
    by (simp add: sun_topaz_def)
  have e: "calculate_elemental_dominance_fp ieee_double ?tgt w = ieee_double 1" for w
    by (rule no_elements_fp) code_simp
  have w: "weighted_sum_fp ieee_double ?E sun_topaz ?tgt ?ctx
             = 1125449546879887 / 1125899906842624"
    unfolding weighted_sum_fp_def e by code_simp
  have p: "ieee_double (py_round (1125449546879887 / 1125899906842624) 3) = 1"
    by code_simp
  have k: "calculate_rank_fp ieee_double (1125449546879887 / 1125899906842624) = ''weak''"
    by code_simp
  have m: "calculate_rank_fp ieee_double 1 = ''moderate''"
    by code_simp
  from calculate_final_weight_fp_fields [OF t, of ieee_double ?E ?ctx]
  obtain r where "calculate_final_weight_fp ieee_double ?E sun_topaz ?ctx = Inr r"
    "final_weight r = 1" "rank r = ''weak''"
    unfolding w p k by blast
  with x m show ?thesis
    by simp
qed

subsection \<open>The temporal mismatch penalty in the master function\<close>

text \<open>
  Claim C7, evaluated at its failing input, the relationship "Mars to Tuesday (wrong day)"
  of \<^verbatim>\<open>test_complex_scenarios\<close> in a Mars hour on a Saturday. The target entity is a
  Weekday of another name, but \<open>calculate_temporal_relevance\<close> reads the keys
  \<^verbatim>\<open>target_type\<close> and \<^verbatim>\<open>target_name\<close> of the relationship, which the master function's
  relationships do not carry (they carry \<^verbatim>\<open>target_entity\<close>): the reported temporal
  relevance is 1.8, not the penalised 0.54.
\<close>

theorem weekday_penalty_missed_in_final_weight:
  "target_entity mars_tuesday
     = Some \<lparr>entity_name = Some ''Tuesday'', entity_type = Some ''Weekday''\<rparr>
   \<and> source_planet mars_tuesday = hour_ruler context_saturday_mars
   \<and> current_weekday context_saturday_mars = Some ''Saturday''
   \<and> map_sum id (temporal_relevance \<circ> breakdown)
       (calculate_final_weight GraphWeightingEngine_init mars_tuesday context_saturday_mars)
       = Inr (18 / 10)
   \<and> clamp (18 / 10 * (3 / 10) * relationship_type_multiplier (relationship_type mars_tuesday))
       (1 / 10) 2 = 54 / 100"
  by code_simp

subsection \<open>Missing data\<close>

lemma authority_missing:
  "dict_get positions planet = None \<Longrightarrow> calculate_astrological_authority planet positions = 1 / 2"
  by (simp add: calculate_astrological_authority_def)

lemma dict_get_empty: "dict_get [] k = None"
  by (cases k) (simp_all add: dict_get_def)

lemma weather_ignores_positions:
  "calculate_current_elemental_weather ps h d = calculate_current_elemental_weather ps' h d"
  by (simp add: calculate_current_elemental_weather_def)

lemma py_round_half: "py_round (1 / 2) 3 = 1 / 2"
  by code_simp

lemma py_round_two_fifths: "py_round (4 / 10) 3 = 4 / 10"
  by code_simp

lemma data_completeness_nonneg: "0 \<le> data_completeness ctx"
  by (simp add: data_completeness_def Let_def)

lemma data_completeness_empty_positions:
  assumes "get_default (planetary_positions ctx) [] = []" and "ps \<noteq> []"
  shows "data_completeness ctx
           = 1 / 2 * data_completeness (ctx\<lparr>planetary_positions := Some ps\<rparr>)"
  using assms by (simp add: data_completeness_def Let_def get_default_def)

lemma weight_stability_mono: "a \<le> b \<Longrightarrow> weight_stability a \<le> weight_stability b"
  by (simp add: weight_stability_def min_def)

lemma weighted_sum_positions:
  "weighted_sum GraphWeightingEngine_init rel tgt (ctx\<lparr>planetary_positions := pp\<rparr>)
     - calculate_astrological_authority (source_planet rel) (get_default pp []) * (4 / 10)
   = weighted_sum GraphWeightingEngine_init rel tgt ctx
     - calculate_astrological_authority (source_planet rel)
         (get_default (planetary_positions ctx) []) * (4 / 10)"
  using weather_ignores_positions
    [of "get_default pp []" "hour_ruler ctx" "day_ruler ctx"
        "get_default (planetary_positions ctx) []"]
  by (simp add: weighted_sum_def GraphWeightingEngine_init_def)

text \<open>
  Claim C8, amended: for every relationship with a target entity and every context whose
  positions map is empty, \<open>calculate_final_weight\<close> returns a result; the authority score
  is the default 0.5 (as for any planet absent from a positions map); the data
  completeness is half that of the same context with non-empty positions \<open>ps\<close>; and
  whenever the authority of the source planet under \<open>ps\<close> is at least 0.5, the unrounded
  confidence is at most half the unrounded confidence of the full call, so that the
  returned confidence is at most half the returned full confidence plus 0.00075 of
  rounding.
\<close>

theorem empty_positions_degrade_confidence:
  assumes tgt: "target_entity rel = Some tgt"
    and empty: "get_default (planetary_positions ctx) [] = []"
    and full: "ps \<noteq> []"
  shows "\<exists>r_e r_f.
      calculate_final_weight GraphWeightingEngine_init rel ctx = Inr r_e
    \<and> calculate_final_weight GraphWeightingEngine_init rel
         (ctx\<lparr>planetary_positions := Some ps\<rparr>) = Inr r_f
    \<and> calculate_astrological_authority (source_planet rel)
         (get_default (planetary_positions ctx) []) = 1 / 2
    \<and> astrological_authority (breakdown r_e) = 1 / 2
    \<and> data_completeness ctx
         = 1 / 2 * data_completeness (ctx\<lparr>planetary_positions := Some ps\<rparr>)
    \<and> (1 / 2 \<le> calculate_astrological_authority (source_planet rel) ps \<longrightarrow>
         data_completeness ctx
           * weight_stability (weighted_sum GraphWeightingEngine_init rel tgt ctx)
         \<le> 1 / 2 * (data_completeness (ctx\<lparr>planetary_positions := Some ps\<rparr>)
               * weight_stability (weighted_sum GraphWeightingEngine_init rel tgt
                    (ctx\<lparr>planetary_positions := Some ps\<rparr>)))
         \<and> confidence r_e \<le> confidence r_f / 2 + 3 / 4000)"
proof -
  let ?E = GraphWeightingEngine_init
  let ?ctx' = "ctx\<lparr>planetary_positions := Some ps\<rparr>"
  let ?we = "weighted_sum ?E rel tgt ctx"
  let ?wf = "weighted_sum ?E rel tgt ?ctx'"
  let ?ue = "data_completeness ctx * weight_stability ?we"
  let ?uf = "data_completeness ?ctx' * weight_stability ?wf"
  have a_e: "calculate_astrological_authority (source_planet rel)
               (get_default (planetary_positions ctx) []) = 1 / 2"
    unfolding empty by (rule authority_missing [OF dict_get_empty])
  have dc: "data_completeness ctx = 1 / 2 * data_completeness ?ctx'"
    by (rule data_completeness_empty_positions [OF empty full])
  have cmp: "?ue \<le> 1 / 2 * ?uf \<and>
             calculate_confidence ?we ctx \<le> calculate_confidence ?wf ?ctx' / 2 + 3 / 4000"
    if strong: "1 / 2 \<le> calculate_astrological_authority (source_planet rel) ps"
  proof -
    have "?wf - calculate_astrological_authority (source_planet rel) ps * (4 / 10)
            = ?we - 1 / 2 * (4 / 10)"
      using weighted_sum_positions [where rel = rel and tgt = tgt and ctx = ctx and pp = "Some ps"] a_e
      by (simp add: get_default_def)
    with strong have "?we \<le> ?wf"
      by simp
    then have "weight_stability ?we \<le> weight_stability ?wf"
      by (rule weight_stability_mono)
    then have "data_completeness ?ctx' * weight_stability ?we
                 \<le> data_completeness ?ctx' * weight_stability ?wf"
      by (intro mult_left_mono data_completeness_nonneg)
    then have u: "?ue \<le> 1 / 2 * ?uf"
      unfolding dc by simp
    have ce: "\<bar>calculate_confidence ?we ctx - ?ue\<bar> \<le> 1 / 2000"
      using py_round_close [of ?ue 3] by (simp add: calculate_confidence_def)
    have cf: "\<bar>calculate_confidence ?wf ?ctx' - ?uf\<bar> \<le> 1 / 2000"
      using py_round_close [of ?uf 3] by (simp add: calculate_confidence_def)
    from u ce cf
    have "calculate_confidence ?we ctx \<le> calculate_confidence ?wf ?ctx' / 2 + 3 / 4000"
      by linarith
    with u show ?thesis by blast
  qed
  from calculate_final_weight_fields [OF tgt, of ?E ctx]
  obtain r_e where r_e: "calculate_final_weight ?E rel ctx = Inr r_e"
    "astrological_authority (breakdown r_e) =
       py_round (calculate_astrological_authority (source_planet rel)
         (get_default (planetary_positions ctx) [])) 3"
    "confidence r_e = calculate_confidence ?we ctx"
    by blast
  from calculate_final_weight_fields [OF tgt, of ?E ?ctx']
  obtain r_f where r_f: "calculate_final_weight ?E rel ?ctx' = Inr r_f"
    "confidence r_f = calculate_confidence ?wf ?ctx'"
    by blast
  have b: "astrological_authority (breakdown r_e) = 1 / 2"
    unfolding r_e(2) a_e by (rule py_round_half)
  have c: "?ue \<le> 1 / 2 * ?uf \<and> confidence r_e \<le> confidence r_f / 2 + 3 / 4000"
    if "1 / 2 \<le> calculate_astrological_authority (source_planet rel) ps"
    using cmp [OF that] by (simp only: r_e(3) r_f(2))
  show ?thesis
    using r_e(1) r_f(1) a_e b dc c by blast
qed

theorem empty_positions_degrade_confidence_witness:
  "target_entity sun_topaz
     = Some \<lparr>entity_name = Some ''Topaz'', entity_type = Some ''Stone''\<rparr>
   \<and> get_default (planetary_positions (context_sun_rising\<lparr>planetary_positions := None\<rparr>))
        [] = []
   \<and> get_default (planetary_positions context_sun_rising) [] \<noteq> []
   \<and> 1 / 2 \<le> calculate_astrological_authority (source_planet sun_topaz)
        (get_default (planetary_positions context_sun_rising) [])
   \<and> map_sum id confidence (calculate_final_weight GraphWeightingEngine_init sun_topaz
        (context_sun_rising\<lparr>planetary_positions := None\<rparr>)) = Inr (129 / 1000)
   \<and> map_sum id confidence (calculate_final_weight GraphWeightingEngine_init sun_topaz
        context_sun_rising) = Inr (500 / 1000)
   \<and> (129 / 1000 :: rat) \<le> (500 / 1000) / 2 + 3 / 4000"
proof -
  let ?ps = "get_default (planetary_positions context_sun_rising) []"
  let ?ctx = "context_sun_rising\<lparr>planetary_positions := None\<rparr>"
  have t: "target_entity sun_topaz
             = Some \<lparr>entity_name = Some ''Topaz'', entity_type = Some ''Stone''\<rparr>"
    by (simp add: sun_topaz_def)
  have e: "get_default (planetary_positions ?ctx) [] = []"
    by (simp add: get_default_def)
  have f: "?ps \<noteq> []"
    by (simp add: context_sun_rising_def get_default_def)
  have s: "1 / 2 \<le> calculate_astrological_authority (source_planet sun_topaz) ?ps"
    by code_simp
  have same: "?ctx\<lparr>planetary_positions := Some ?ps\<rparr> = context_sun_rising"
    by (simp add: context_sun_rising_def get_default_def)
  have ce: "map_sum id confidence (calculate_final_weight GraphWeightingEngine_init
              sun_topaz ?ctx) = Inr (129 / 1000)"
    by code_simp
  have cf: "map_sum id confidence (calculate_final_weight GraphWeightingEngine_init
              sun_topaz context_sun_rising) = Inr (500 / 1000)"
    by code_simp
  from empty_positions_degrade_confidence [OF t e f] s
  obtain r_e r_f where
    "calculate_final_weight GraphWeightingEngine_init sun_topaz ?ctx = Inr r_e"
    "calculate_final_weight GraphWeightingEngine_init sun_topaz context_sun_rising
       = Inr r_f"
    "confidence r_e \<le> confidence r_f / 2 + 3 / 4000"
    unfolding same by blast
  with ce cf have "(129 / 1000 :: rat) \<le> (500 / 1000) / 2 + 3 / 4000"
    by simp
  with t e f s ce cf show ?thesis
    by blast
qed

text \<open>
  The claim as stated fails for a weak planet: Saturn in fall, below the horizon and
  combust has authority 0.1 under the full positions, below the default 0.5, so the weight
  rises when the positions are dropped and the confidence falls from 0.274 to 0.177 only.
\<close>

theorem empty_positions_confidence_counterexample:
  "map_sum id confidence
     (calculate_final_weight GraphWeightingEngine_init saturn_lead context_friday_saturn)
     = Inr (274 / 1000)
   \<and> map_sum id confidence
       (calculate_final_weight GraphWeightingEngine_init saturn_lead
          (context_friday_saturn\<lparr>planetary_positions := Some []\<rparr>))
       = Inr (177 / 1000)
   \<and> \<not> (177 / 1000 :: rat) \<le> 1 / 2 * (274 / 1000)
   \<and> \<not> (274 / 1000 :: rat) - 177 / 1000 \<ge> 1 / 2"
  by code_simp

text \<open>
  Claim C9, amended: for every relationship whose source planet is missing and whose
  target entity is present, \<open>calculate_final_weight\<close> raises no error: it returns a result
  with the proximity score 0.4 of the 3-hop default and the authority score 0.5 of
  missing data.
\<close>

theorem missing_source_planet_defaults:
  assumes "source_planet rel = None" and "target_entity rel = Some tgt"
  shows "\<exists>r. calculate_final_weight self rel ctx = Inr r
           \<and> graph_proximity (breakdown r) = 4 / 10
           \<and> astrological_authority (breakdown r) = 1 / 2"
proof -
  have g: "calculate_graph_proximity_weight None t g = 4 / 10" for t g
    by (simp add: calculate_graph_proximity_weight_def find_shortest_path_length_def
        dict_get_def get_default_def)
  have a: "calculate_astrological_authority None ps = 1 / 2" for ps
    by (rule authority_missing) (simp add: dict_get_def)
  from calculate_final_weight_fields [OF assms(2), of self ctx]
  obtain r where r: "calculate_final_weight self rel ctx = Inr r"
    "graph_proximity (breakdown r) =
       py_round (calculate_graph_proximity_weight (source_planet rel)
         (get_default (entity_name tgt) []) (get_default (graph_data ctx) [])) 3"
    "astrological_authority (breakdown r) =
       py_round (calculate_astrological_authority (source_planet rel)
         (get_default (planetary_positions ctx) [])) 3"
    by blast
  have "graph_proximity (breakdown r) = 4 / 10"
    unfolding r(2) assms(1) g by (rule py_round_two_fifths)
  moreover have "astrological_authority (breakdown r) = 1 / 2"
    unfolding r(3) assms(1) a by (rule py_round_half)
  ultimately show ?thesis
    using r(1) by blast
qed

theorem missing_source_planet_defaults_witness:
  "source_planet unsourced_iron = None
   \<and> target_entity unsourced_iron
       = Some \<lparr>entity_name = Some ''Iron'', entity_type = Some ''Metal''\<rparr>
   \<and> map_sum id (graph_proximity \<circ> breakdown)
       (calculate_final_weight GraphWeightingEngine_init unsourced_iron context_saturday_mars)
       = Inr (4 / 10)
   \<and> map_sum id (astrological_authority \<circ> breakdown)
       (calculate_final_weight GraphWeightingEngine_init unsourced_iron context_saturday_mars)
       = Inr (1 / 2)"
proof -
  have s: "source_planet unsourced_iron = None"
    by (simp add: unsourced_iron_def)
  have t: "target_entity unsourced_iron
             = Some \<lparr>entity_name = Some ''Iron'', entity_type = Some ''Metal''\<rparr>"
    by (simp add: unsourced_iron_def)
  from missing_source_planet_defaults [OF s t, of GraphWeightingEngine_init context_saturday_mars]
  obtain r where
    "calculate_final_weight GraphWeightingEngine_init unsourced_iron context_saturday_mars
       = Inr r"
    "graph_proximity (breakdown r) = 4 / 10" "astrological_authority (breakdown r) = 1 / 2"
    by blast
  with s t show ?thesis
    by simp
qed

text \<open>
  The claim as stated (a validation error) fails: without a source planet the Iron
  relationship is weighted 0.566, rank weak.
\<close>

theorem missing_source_planet_counterexample:
  "source_planet unsourced_iron = None
   \<and> map_sum id final_weight
       (calculate_final_weight GraphWeightingEngine_init unsourced_iron context_saturday_mars)
       = Inr (566 / 1000)
   \<and> map_sum id rank
       (calculate_final_weight GraphWeightingEngine_init unsourced_iron context_saturday_mars)
       = Inr ''weak''"
  by code_simp

end
